theory Spec2Isabelle
  imports Main "HOL-Library.Word"
begin

unbundle bit_operations_syntax

section \<open>SynchDB: shared definitions\<close>

text \<open>
  The development follows three files of the repository: \<^verbatim>\<open>synchdb.c\<close> (the connector
  supervisor and the administrative entry points), \<^verbatim>\<open>format_converter.c\<close> (the DDL
  and DML translators and the value decoder) and \<^verbatim>\<open>replication_agent.c\<close> (the
  destination applier). C strings are \<^typ>\<open>string\<close> (lists of 8-bit characters without
  an embedded NUL), \<^verbatim>\<open>elog(ERROR, ...)\<close> and \<^verbatim>\<open>ereport(ERROR, ...)\<close> are values of
  the type \<open>err\<close> returned on the left of a sum, and memory errors of the C program
  are written out as \<open>Undefined_behaviour\<close>. Fixed buffer sizes declared in headers
  (\<^verbatim>\<open>SYNCHDB_ERRMSG_SIZE\<close>, \<^verbatim>\<open>SYNCHDB_DATATYPE_NAME_SIZE\<close>, \<^verbatim>\<open>BGW_EXTRALEN\<close>)
  are not modelled: names and messages are assumed to fit.
\<close>

datatype errcode = ERRCODE_INVALID_PARAMETER_VALUE | ERRCODE_INSUFFICIENT_RESOURCES
  | ERRCODE_INTERNAL_ERROR

datatype err = Ereport errcode string | Elog_ERROR string | Undefined_behaviour string

datatype ConnectorType = TYPE_UNDEF | TYPE_MYSQL | TYPE_ORACLE | TYPE_SQLSERVER

datatype ConnectorState = STATE_UNDEF | STATE_STOPPED | STATE_INITIALIZING | STATE_PAUSED
  | STATE_SYNCING | STATE_PARSING | STATE_CONVERTING | STATE_EXECUTING | STATE_OFFSET_UPDATE

datatype loglevel = DEBUG1 | LOG | WARNING

text \<open>\<^verbatim>\<open>tolower\<close> and \<^verbatim>\<open>strcasecmp(a, b) == 0\<close> in the C locale.\<close>

definition c_tolower :: "char \<Rightarrow> char" where
  "c_tolower c = (let n = (of_char c :: nat) in
     if 65 \<le> n \<and> n \<le> 90 then char_of (n + 32) else c)"

definition strcasecmp_eq :: "string \<Rightarrow> string \<Rightarrow> bool" where
  "strcasecmp_eq a b = (map c_tolower a = map c_tolower b)"

section \<open>Connector supervisor (synchdb.c)\<close>

record SynchdbRequest =
  reqstate :: ConnectorState
  reqdata :: string

record ConnectorInfo =
  state :: ConnectorState
  req :: SynchdbRequest
  srcdb :: string

record SynchdbSharedState =
  mysqlinfo :: ConnectorInfo
  oracleinfo :: ConnectorInfo
  sqlserverinfo :: ConnectorInfo

text \<open>
  Everything the worker does outside shared memory is recorded, in order, in a trace:
  log lines, the calls into the Debezium engine, each write of the connector state or of
  the request slot, and the start and the commit of a destination transaction.
\<close>

datatype event = Elog loglevel string
  | Dbz_engine_stop
  | Dbz_engine_start ConnectorType
  | Dbz_engine_set_offset ConnectorType string string string
  | Set_state ConnectorType ConnectorState
  | Reset_request ConnectorType
  | StartTransactionCommand
  | CommitTransactionCommand

record world =
  sdb_state :: "SynchdbSharedState option"
  trace :: "event list"

text \<open>
  The return codes of the three engine calls come from the embedded JVM, and the names of
  the offset files from macros of a header; both are inputs of the model.
\<close>

record engine =
  stop_ret :: int
  start_ret :: int
  set_offset_ret :: int
  offset_file :: "ConnectorType \<Rightarrow> string"



definition emit :: "event \<Rightarrow> world \<Rightarrow> world" where
  "emit e w = w\<lparr>trace := trace w @ [e]\<rparr>"

text \<open>
  The \<^verbatim>\<open>switch (type)\<close> that selects \<^verbatim>\<open>mysqlinfo\<close>, \<^verbatim>\<open>oracleinfo\<close> or
  \<^verbatim>\<open>sqlserverinfo\<close>; \<open>None\<close> is its \<^verbatim>\<open>default\<close> label.
\<close>

definition get_info :: "ConnectorType \<Rightarrow> SynchdbSharedState \<Rightarrow> ConnectorInfo option" where
  "get_info t s = (case t of
     TYPE_MYSQL \<Rightarrow> Some (mysqlinfo s)
   | TYPE_ORACLE \<Rightarrow> Some (oracleinfo s)
   | TYPE_SQLSERVER \<Rightarrow> Some (sqlserverinfo s)
   | TYPE_UNDEF \<Rightarrow> None)"

definition put_info :: "ConnectorType \<Rightarrow> ConnectorInfo \<Rightarrow> SynchdbSharedState \<Rightarrow> SynchdbSharedState" where
  "put_info t i s = (case t of
     TYPE_MYSQL \<Rightarrow> s\<lparr>mysqlinfo := i\<rparr>
   | TYPE_ORACLE \<Rightarrow> s\<lparr>oracleinfo := i\<rparr>
   | TYPE_SQLSERVER \<Rightarrow> s\<lparr>sqlserverinfo := i\<rparr>
   | TYPE_UNDEF \<Rightarrow> s)"


definition set_shm_connector_state :: "ConnectorType \<Rightarrow> ConnectorState \<Rightarrow> world \<Rightarrow> world" where
  "set_shm_connector_state t st w = (case sdb_state w of
     None \<Rightarrow> emit (Elog WARNING ''Shared memory state is not initialized'') w
   | Some s \<Rightarrow>
       (case get_info t s of
          None \<Rightarrow> emit (Elog WARNING ''Unsupported connector type'') w
        | Some i \<Rightarrow>
            emit (Set_state t st)
              (w\<lparr>sdb_state := Some (put_info t (i\<lparr>state := st\<rparr>) s)\<rparr>)))"



text \<open>
  What the handler leaves behind, read back for one connector: its \<open>ConnectorInfo\<close>
  after the call, and the events the call appended to the trace.
\<close>

definition info_of :: "ConnectorType \<Rightarrow> world \<Rightarrow> ConnectorInfo option" where
  "info_of t w = (case sdb_state w of None \<Rightarrow> None | Some s \<Rightarrow> get_info t s)"

definition empty_request :: SynchdbRequest where
  "empty_request = \<lparr>reqstate = STATE_UNDEF, reqdata = []\<rparr>"





definition new_events :: "world \<Rightarrow> world \<Rightarrow> event list" where
  "new_events w w' = drop (length (trace w)) (trace w')"


section \<open>Library functions used by the translators\<close>

text \<open>
  The translators call into the C library and into PostgreSQL's \<^verbatim>\<open>common/base64.c\<close>.
  Those functions are not part of the repository; they are modelled here from their
  documented behaviour, once, and used by name below. Bytes are \<^typ>\<open>8 word\<close>.
\<close>

type_synonym byte = "8 word"

abbreviation squote :: char where "squote \<equiv> CHR 0x27"

abbreviation dquote :: char where "dquote \<equiv> CHR 0x22"

abbreviation backslash :: char where "backslash \<equiv> CHR 0x5C"

definition c_isspace :: "char \<Rightarrow> bool" where
  "c_isspace c = (let n = (of_char c :: nat) in n = 32 \<or> (9 \<le> n \<and> n \<le> 13))"

definition c_isdigit :: "char \<Rightarrow> bool" where
  "c_isdigit c = (let n = (of_char c :: nat) in 48 \<le> n \<and> n \<le> 57)"

definition digit_char :: "nat \<Rightarrow> char" where
  "digit_char d = ''0123456789'' ! d"

text \<open>Decimal digits of a natural number, most significant first.\<close>

fun dec_digits :: "nat \<Rightarrow> string" where
  "dec_digits n = (if n < 10 then [digit_char n] else dec_digits (n div 10) @ [digit_char (n mod 10)])"

declare dec_digits.simps [simp del]

text \<open>\<^verbatim>\<open>printf("%ld", v)\<close> and \<^verbatim>\<open>printf("%0wd", v)\<close>.\<close>

definition printf_ld :: "int \<Rightarrow> string" where
  "printf_ld v = (if v < 0 then CHR ''-'' # dec_digits (nat (- v)) else dec_digits (nat v))"

definition printf_0d :: "nat \<Rightarrow> int \<Rightarrow> string" where
  "printf_0d w v =
     (if v < 0 then
        (let ds = dec_digits (nat (- v)) in
         CHR ''-'' # replicate (w - 1 - length ds) CHR ''0'' @ ds)
      else
        (let ds = dec_digits (nat v) in replicate (w - length ds) CHR ''0'' @ ds))"

text \<open>C division and remainder truncate towards zero.\<close>

definition c_div :: "int \<Rightarrow> int \<Rightarrow> int" where
  "c_div a b = sgn a * sgn b * (\<bar>a\<bar> div \<bar>b\<bar>)"

definition c_mod :: "int \<Rightarrow> int \<Rightarrow> int" where
  "c_mod a b = a - b * c_div a b"

text \<open>
  \<^verbatim>\<open>atoll\<close> as glibc implements it (\<^verbatim>\<open>strtoll\<close> in base 10): leading white space, an
  optional sign, the longest run of digits, and the result clamped to the range of
  \<^verbatim>\<open>long long\<close>. \<^verbatim>\<open>atoi\<close> is the same conversion cut to 32 bits.
\<close>

fun digits_value :: "int \<Rightarrow> string \<Rightarrow> int" where
  "digits_value acc [] = acc"
| "digits_value acc (c # cs) =
     (if c_isdigit c then digits_value (acc * 10 + (int (of_char c) - 48)) cs else acc)"

definition atoll :: "string \<Rightarrow> int" where
  "atoll s =
     (let s1 = dropWhile c_isspace s;
          neg = (case s1 of [] \<Rightarrow> False | c # r \<Rightarrow> c = CHR ''-'');
          s2 = (case s1 of [] \<Rightarrow> [] | c # r \<Rightarrow> if c = CHR ''-'' \<or> c = CHR ''+'' then r else s1);
          n = digits_value 0 s2;
          v = (if neg then - n else n)
      in max (- (2 ^ 63)) (min (2 ^ 63 - 1) v))"

definition atoi :: "string \<Rightarrow> int" where
  "atoi s = sint (word_of_int (atoll s) :: 32 word)"

text \<open>\<^verbatim>\<open>strstr(hay, needle) != NULL\<close>.\<close>

fun is_prefix :: "string \<Rightarrow> string \<Rightarrow> bool" where
  "is_prefix [] ys = True"
| "is_prefix (x # xs) [] = False"
| "is_prefix (x # xs) (y # ys) = (x = y \<and> is_prefix xs ys)"

fun strstr_found :: "string \<Rightarrow> string \<Rightarrow> bool" where
  "strstr_found [] needle = (needle = [])"
| "strstr_found (h # hs) needle = (is_prefix needle (h # hs) \<or> strstr_found hs needle)"

text \<open>
  \<^verbatim>\<open>strtok(s, ".")\<close> called until it returns \<^verbatim>\<open>NULL\<close>: the non-empty runs of
  characters between dots, in order.
\<close>

fun strtok_dot :: "string \<Rightarrow> string \<Rightarrow> string list" where
  "strtok_dot cur [] = (if cur = [] then [] else [cur])"
| "strtok_dot cur (c # cs) =
     (if c = CHR ''.'' then (if cur = [] then strtok_dot [] cs else cur # strtok_dot [] cs)
      else strtok_dot (cur @ [c]) cs)"

definition nth_token :: "string list \<Rightarrow> nat \<Rightarrow> string option" where
  "nth_token ts k = (if k < length ts then Some (ts ! k) else None)"

subsection \<open>Base64\<close>

text \<open>
  \<^verbatim>\<open>pg_b64_dec_len\<close> and \<^verbatim>\<open>pg_b64_decode\<close>. The decoder fails (returns \<open>-1\<close>
  and clears the destination) on white space, on a character outside the alphabet, on
  padding in the first two places of a group, on a last group that is not complete, and
  when the destination is too small; \<open>None\<close> is that failure.
\<close>

definition pg_b64_dec_len :: "nat \<Rightarrow> nat" where
  "pg_b64_dec_len srclen = (srclen * 3) div 4"

definition b64lookup :: "char \<Rightarrow> nat option" where
  "b64lookup c = (let n = (of_char c :: nat) in
     if 65 \<le> n \<and> n \<le> 90 then Some (n - 65)
     else if 97 \<le> n \<and> n \<le> 122 then Some (n - 71)
     else if 48 \<le> n \<and> n \<le> 57 then Some (n + 4)
     else if n = 43 then Some 62
     else if n = 47 then Some 63
     else None)"

definition b64_put :: "nat \<Rightarrow> nat \<Rightarrow> byte list \<Rightarrow> byte list option" where
  "b64_put dstlen v out = (if length out + 1 > dstlen then None else Some (out @ [of_nat (v mod 256)]))"

definition b64_flush :: "nat \<Rightarrow> nat \<Rightarrow> nat \<Rightarrow> byte list \<Rightarrow> byte list option" where
  "b64_flush dstlen buf fin out =
     (case b64_put dstlen (buf div 65536) out of
        None \<Rightarrow> None
      | Some out1 \<Rightarrow>
          (case (if fin = 0 \<or> fin > 1 then b64_put dstlen (buf div 256) out1 else Some out1) of
             None \<Rightarrow> None
           | Some out2 \<Rightarrow>
               (if fin = 0 \<or> fin > 2 then b64_put dstlen buf out2 else Some out2)))"

fun pg_b64_decode_loop :: "nat \<Rightarrow> string \<Rightarrow> nat \<Rightarrow> nat \<Rightarrow> nat \<Rightarrow> byte list \<Rightarrow> byte list option" where
  "pg_b64_decode_loop dstlen [] buf pos fin out = (if pos = 0 then Some out else None)"
| "pg_b64_decode_loop dstlen (c # cs) buf pos fin out =
     (if c = CHR '' '' \<or> c = CHR 0x09 \<or> c = CHR 0x0A \<or> c = CHR 0x0D then None
      else
        (case (if c = CHR ''='' then
                 (if fin = 0 then
                    (if pos = 2 then Some (0, 1) else if pos = 3 then Some (0, 2) else None)
                  else Some (0, fin))
               else map_option (\<lambda>b. (b, fin)) (b64lookup c)) of
           None \<Rightarrow> None
         | Some (b, fin') \<Rightarrow>
             (if pos + 1 = 4 then
                (case b64_flush dstlen (buf * 64 + b) fin' out of
                   None \<Rightarrow> None
                 | Some out' \<Rightarrow> pg_b64_decode_loop dstlen cs 0 0 fin' out')
              else pg_b64_decode_loop dstlen cs (buf * 64 + b) (pos + 1) fin' out)))"

definition pg_b64_decode :: "string \<Rightarrow> nat \<Rightarrow> byte list option" where
  "pg_b64_decode src dstlen = pg_b64_decode_loop dstlen src 0 0 0 []"

subsection \<open>Calendar time\<close>

text \<open>
  \<^verbatim>\<open>gmtime\<close>: seconds since the epoch to a broken-down UTC time in the proleptic
  Gregorian calendar; it returns \<^verbatim>\<open>NULL\<close> (\<open>None\<close>) when the year does not fit an
  \<^verbatim>\<open>int\<close>.
\<close>

record tm =
  tm_year :: int
  tm_mon :: int
  tm_mday :: int
  tm_hour :: int
  tm_min :: int
  tm_sec :: int

definition civil_from_days :: "int \<Rightarrow> int \<times> int \<times> int" where
  "civil_from_days z0 =
     (let z = z0 + 719468;
          era = z div 146097;
          doe = z - era * 146097;
          yoe = (doe - doe div 1460 + doe div 36524 - doe div 146096) div 365;
          y = yoe + era * 400;
          doy = doe - (365 * yoe + yoe div 4 - yoe div 100);
          mp = (5 * doy + 2) div 153;
          d = doy - (153 * mp + 2) div 5 + 1;
          m = (if mp < 10 then mp + 3 else mp - 9)
      in (if m \<le> 2 then y + 1 else y, m, d))"

definition gmtime :: "int \<Rightarrow> tm option" where
  "gmtime t =
     (let days = t div 86400;
          rem = t mod 86400;
          ymd = civil_from_days days;
          y = fst ymd
      in if y - 1900 < - (2 ^ 31) \<or> 2 ^ 31 - 1 < y - 1900 then None
         else Some \<lparr>tm_year = y - 1900, tm_mon = fst (snd ymd) - 1, tm_mday = snd (snd ymd),
                    tm_hour = rem div 3600, tm_min = (rem mod 3600) div 60, tm_sec = rem mod 60\<rparr>)"

section \<open>Value decoder (format_converter.c)\<close>

datatype Oid = BOOLOID | INT8OID | INT2OID | INT4OID | FLOAT8OID | FLOAT4OID
  | MONEYOID | NUMERICOID
  | BPCHAROID | TEXTOID | VARCHAROID | CSTRINGOID | TIMESTAMPTZOID | JSONBOID | UUIDOID
  | VARBITOID | BITOID | DATEOID | TIMESTAMPOID | TIMEOID | BYTEAOID | TIMETZOID
  | OTHEROID nat

datatype TimeRep = TIME_UNDEF | TIME_DATE | TIME_TIME | TIME_MICROTIME | TIME_NANOTIME
  | TIME_TIMESTAMP | TIME_MICROTIMESTAMP | TIME_NANOTIMESTAMP | TIME_ZONEDTIMESTAMP

text \<open>
  \<^verbatim>\<open>DBZ_DML_COLUMN_VALUE\<close>. The field \<^verbatim>\<open>value\<close> is a pointer that may be
  \<^verbatim>\<open>NULL\<close>; \<^verbatim>\<open>typemod\<close> and \<^verbatim>\<open>scale\<close> are C \<^verbatim>\<open>int\<close>s.
\<close>

record DBZ_DML_COLUMN_VALUE =
  dml_name :: string
  dml_remoteColumnName :: string
  dml_value :: "string option"
  dml_datatype :: Oid
  dml_typemod :: int
  dml_position :: int
  dml_scale :: int
  dml_timerep :: TimeRep

text \<open>
  What the decoder takes from outside the file: the text \<^verbatim>\<open>snprintf("%g")\<close> prints
  for \<^verbatim>\<open>(double) value / (double) scale_factor\<close> (floating point, given the integer
  and the scale), the result of \<^verbatim>\<open>mktime\<close> on local midnight of 1970-01-01 (zero
  when the time zone is UTC), the table of transform expressions loaded from the rule
  file (\<open>None\<close> when no rule file was loaded), the evaluator of such an expression
  \<^verbatim>\<open>ra_transformDataExpression\<close>, and the reading of a field of a JSON text
  (\<^verbatim>\<open>jsonb_in\<close> followed by \<^verbatim>\<open>getPathElementString\<close>).
\<close>

record decoder_env =
  snprintf_g :: "int \<Rightarrow> int \<Rightarrow> string"
  mktime_epoch :: int
  transformExpressionHash :: "(string \<Rightarrow> string option) option"
  ra_transformDataExpression :: "string \<Rightarrow> string option \<Rightarrow> string option \<Rightarrow> string \<Rightarrow> string option"
  json_field :: "string \<Rightarrow> string \<Rightarrow> string option"

subsection \<open>Helpers\<close>

text \<open>
  \<^verbatim>\<open>derive_value_from_byte\<close>. The accumulator is a 64-bit \<^verbatim>\<open>long\<close>; shifting it left
  wraps. The sign extension shifts \<^verbatim>\<open>1\<close> by \<^verbatim>\<open>len * 8\<close>, which C leaves undefined
  from 64 bits on, that is for eight bytes or more with the top bit set.
\<close>

definition derive_value_from_byte :: "byte list \<Rightarrow> int \<Rightarrow> err + 64 word" where
  "derive_value_from_byte bytes len =
     (let val = foldl (\<lambda>v b. push_bit 8 v OR ucast b) (0 :: 64 word) (take (nat len) bytes) in
      case bytes of
        [] \<Rightarrow> Inl (Undefined_behaviour ''read of bytes[0] outside the buffer'')
      | b0 # _ \<Rightarrow>
          if b0 AND 0x80 = 0 then Inr val
          else if 0 \<le> len * 8 \<and> len * 8 < 64
            then Inr (val OR (- push_bit (nat (len * 8)) 1))
          else Inl (Undefined_behaviour ''shift by 64 bits or more''))"

text \<open>\<^verbatim>\<open>reverse_byte_array\<close>: the two indices walk towards each other, swapping.\<close>

function reverse_byte_array_loop :: "byte list \<Rightarrow> nat \<Rightarrow> nat \<Rightarrow> byte list" where
  "reverse_byte_array_loop array start fin =
     (if start < fin
      then reverse_byte_array_loop (array[start := array ! fin, fin := array ! start])
             (Suc start) (fin - 1)
      else array)"
  by pat_completeness auto
termination
  by (relation "measure (\<lambda>(a, s, e). e - s)") auto

declare reverse_byte_array_loop.simps [simp del]

definition reverse_byte_array :: "byte list \<Rightarrow> int \<Rightarrow> err + byte list" where
  "reverse_byte_array array len =
     (if len \<le> 0 \<or> int (length array) < len
      then Inl (Undefined_behaviour ''index outside the array'')
      else Inr (reverse_byte_array_loop array 0 (nat len - 1)))"

definition trim_leading_zeros :: "string \<Rightarrow> string" where
  "trim_leading_zeros str =
     (let rest = dropWhile (\<lambda>c. c = CHR ''0'') str in if rest = [] then ''0'' else rest)"

definition prepend_zeros :: "string \<Rightarrow> nat \<Rightarrow> string" where
  "prepend_zeros str num_zeros = replicate num_zeros CHR ''0'' @ str"

definition byte_to_binary :: "byte \<Rightarrow> string" where
  "byte_to_binary b = map (\<lambda>i. if bit b i then CHR ''1'' else CHR ''0'') [7, 6, 5, 4, 3, 2, 1, 0]"

definition bytes_to_binary_string :: "byte list \<Rightarrow> string" where
  "bytes_to_binary_string bytes = concat (map byte_to_binary bytes)"

definition hex_char :: "nat \<Rightarrow> char" where
  "hex_char d = ''0123456789ABCDEF'' ! d"

definition bytearray_to_escaped_string :: "byte list \<Rightarrow> string" where
  "bytearray_to_escaped_string byte_array =
     [squote, backslash, CHR ''x'']
     @ concat (map (\<lambda>b. [hex_char (unat b div 16), hex_char (unat b mod 16)]) byte_array)
     @ [squote]"

definition escapeSingleQuote :: "string \<Rightarrow> bool \<Rightarrow> string" where
  "escapeSingleQuote inp addquote =
     (if addquote then [squote] else [])
     @ concat (map (\<lambda>c. if c = squote then [squote, squote] else [c]) inp)
     @ (if addquote then [squote] else [])"

definition transform_data_expression :: "decoder_env \<Rightarrow> string \<Rightarrow> string \<Rightarrow> string option" where
  "transform_data_expression env remoteObjid colname =
     (case transformExpressionHash env of
        None \<Rightarrow> None
      | Some h \<Rightarrow> h (remoteObjid @ ''.'' @ colname))"

definition add_quotes :: "bool \<Rightarrow> string \<Rightarrow> string" where
  "add_quotes addquote s = (if addquote then [squote] @ s @ [squote] else s)"

subsection \<open>The branches of \<^verbatim>\<open>processDataByType\<close>\<close>

text \<open>
  The three ways the numeric branch places the decimal point, on the text
  \<^verbatim>\<open>buffer\<close> that \<^verbatim>\<open>snprintf("%ld")\<close> printed (sign included): more characters than
  the scale, as many, or fewer. The source has this block twice, once for a positive
  scale and once for a money value whose scale was not positive.
\<close>

definition place_decimal :: "decoder_env \<Rightarrow> int \<Rightarrow> string \<Rightarrow> int \<Rightarrow> string" where
  "place_decimal env val buffer scale =
     (if int (length buffer) > scale then
        (let decimalpos = nat (int (length buffer) - scale) in
         take decimalpos buffer @ ''.'' @ drop decimalpos buffer)
      else if int (length buffer) = scale then ''0.'' @ buffer
      else take (nat (scale + 2)) (snprintf_g env val scale))"

definition decode_numeric :: "decoder_env \<Rightarrow> DBZ_DML_COLUMN_VALUE \<Rightarrow> string \<Rightarrow> err + string option" where
  "decode_numeric env colval inp =
     (let dstlen = pg_b64_dec_len (length inp);
          dec = pg_b64_decode inp dstlen;
          tmpoutlen = (case dec of None \<Rightarrow> - 1 | Some bs \<Rightarrow> int (length bs));
          tmpout = (case dec of None \<Rightarrow> replicate (dstlen + 1) 0
                    | Some bs \<Rightarrow> bs @ replicate (dstlen + 1 - length bs) 0)
      in case derive_value_from_byte tmpout tmpoutlen of
           Inl e \<Rightarrow> Inl e
         | Inr w \<Rightarrow>
             (let val = sint w; buffer = printf_ld val in
              if dml_scale colval > 0 then
                Inr (Some (place_decimal env val buffer (dml_scale colval)))
              else if dml_datatype colval = MONEYOID then
                Inr (Some (place_decimal env val buffer 4))
              else Inr (Some buffer)))"

text \<open>
  The text branch. With quoting requested the source calls \<^verbatim>\<open>escapeSingleQuote\<close> as
  a statement and drops what it returns, so \<^verbatim>\<open>out\<close> keeps its initial \<^verbatim>\<open>NULL\<close>.
  The same lines serve the zoned timestamp and the default branch.
\<close>

definition decode_text :: "bool \<Rightarrow> string \<Rightarrow> string option" where
  "decode_text addquote inp =
     (if addquote then (let discarded = escapeSingleQuote inp addquote in None)
      else Some inp)"

text \<open>
  The bit branch. A failed base64 decoding gives a negative length and an allocation
  request that \<^verbatim>\<open>palloc0\<close> refuses. The comparison of \<^verbatim>\<open>strlen\<close> with the
  \<^verbatim>\<open>int\<close> typemod is unsigned, so a negative typemod passes it and
  \<^verbatim>\<open>prepend_zeros\<close> is called with a negative count: its own allocation has the
  size \<^verbatim>\<open>typemod + 1\<close>, refused below zero, and for a typemod of \<open>-1\<close> it writes
  before its buffer. The output buffer holds eight digits per byte, so padding to more
  digits writes past its end.
\<close>

definition decode_bit :: "DBZ_DML_COLUMN_VALUE \<Rightarrow> bool \<Rightarrow> string \<Rightarrow> err + string option" where
  "decode_bit colval addquote inp =
     (let dstlen = pg_b64_dec_len (length inp) in
      case pg_b64_decode inp dstlen of
        None \<Rightarrow> Inl (Elog_ERROR ''invalid memory alloc request size'')
      | Some bs \<Rightarrow>
          (case reverse_byte_array bs (int (length bs)) of
             Inl e \<Rightarrow> Inl e
           | Inr rbs \<Rightarrow>
               (let tmp = trim_leading_zeros (bytes_to_binary_string rbs) in
                if dml_typemod colval < - 1 then
                  Inl (Elog_ERROR ''invalid memory alloc request size'')
                else if dml_typemod colval = - 1 then
                  Inl (Undefined_behaviour ''prepend_zeros writes before its buffer'')
                else if int (length tmp) < dml_typemod colval then
                  (if dml_typemod colval > int (length bs * 8) then
                     Inl (Undefined_behaviour ''write past the end of the output buffer'')
                   else
                     (let padded = prepend_zeros tmp (nat (dml_typemod colval - int (length tmp))) in
                      Inr (Some (if addquote then [squote, CHR ''b''] @ padded @ [squote]
                                 else padded))))
                else Inr (Some (if addquote then [squote, CHR ''b''] @ tmp @ [squote]
                                else tmp)))))"

text \<open>
  The date branch. \<^verbatim>\<open>strftime\<close> writes into a buffer of eleven bytes; a longer
  date leaves its contents unspecified. The multiplication by the seconds of a day is
  done in 64 bits.
\<close>

definition wrap64 :: "int \<Rightarrow> int" where
  "wrap64 v = sint (word_of_int v :: 64 word)"

definition decode_date :: "decoder_env \<Rightarrow> DBZ_DML_COLUMN_VALUE \<Rightarrow> bool \<Rightarrow> string \<Rightarrow> err + string option" where
  "decode_date env colval addquote inp =
     (let input = atoll inp in
      case (case dml_timerep colval of
              TIME_DATE \<Rightarrow> Some input
            | TIME_TIMESTAMP \<Rightarrow> Some (c_div input 86400000)
            | TIME_MICROTIMESTAMP \<Rightarrow> Some (c_div input 86400000000)
            | TIME_NANOTIMESTAMP \<Rightarrow> Some (c_div input 86400000000000)
            | _ \<Rightarrow> None) of
        None \<Rightarrow> Inl (Elog_ERROR ''no time representation available to process DATEOID value'')
      | Some dayssinceepoch \<Rightarrow>
          (let target_time = wrap64 (mktime_epoch env + wrap64 (dayssinceepoch * 24 * 60 * 60)) in
           case gmtime target_time of
             None \<Rightarrow> Inl (Undefined_behaviour ''strftime on the NULL that gmtime returned'')
           | Some t \<Rightarrow>
               (let datestr = printf_ld (tm_year t + 1900) @ ''-'' @ printf_0d 2 (tm_mon t + 1)
                                @ ''-'' @ printf_0d 2 (tm_mday t) in
                if length datestr > 10 then
                  Inl (Undefined_behaviour ''strftime result does not fit datestr'')
                else Inr (Some (add_quotes addquote datestr)))))"

text \<open>
  The timestamp branch. \<^verbatim>\<open>snprintf\<close> cuts the text to the 26 characters that fit
  \<^verbatim>\<open>timestamp\<close>.
\<close>

definition decode_timestamp :: "DBZ_DML_COLUMN_VALUE \<Rightarrow> bool \<Rightarrow> string \<Rightarrow> err + string option" where
  "decode_timestamp colval addquote inp =
     (let input = atoll inp in
      if dml_timerep colval = TIME_ZONEDTIMESTAMP then Inr (decode_text addquote inp)
      else
        case (case dml_timerep colval of
                TIME_TIMESTAMP \<Rightarrow> Some (c_div input 1000, c_mod input 1000)
              | TIME_MICROTIMESTAMP \<Rightarrow> Some (c_div (c_div input 1000) 1000, c_mod input 1000000)
              | TIME_NANOTIMESTAMP \<Rightarrow>
                  Some (c_div (c_div (c_div input 1000) 1000) 1000, c_mod input 1000000000)
              | _ \<Rightarrow> None) of
          None \<Rightarrow>
            Inl (Elog_ERROR ''no time representation available to process TIMESTAMPOID value'')
        | Some (seconds, remains) \<Rightarrow>
            (case gmtime seconds of
               None \<Rightarrow> Inl (Undefined_behaviour ''read through the NULL that gmtime returned'')
             | Some t \<Rightarrow>
                 (let base = printf_0d 4 (tm_year t + 1900) @ ''-'' @ printf_0d 2 (tm_mon t + 1)
                        @ ''-'' @ printf_0d 2 (tm_mday t) @ ''T'' @ printf_0d 2 (tm_hour t)
                        @ '':'' @ printf_0d 2 (tm_min t) @ '':'' @ printf_0d 2 (tm_sec t);
                      timestamp = take 26 (if dml_typemod colval > 0
                                           then base @ ''.'' @ printf_0d 6 remains
                                           else base)
                  in Inr (Some (add_quotes addquote timestamp)))))"

text \<open>The time branch reads the number as an \<^verbatim>\<open>unsigned long long\<close>.\<close>

definition decode_time :: "DBZ_DML_COLUMN_VALUE \<Rightarrow> bool \<Rightarrow> string \<Rightarrow> err + string option" where
  "decode_time colval addquote inp =
     (let input = atoll inp mod 2 ^ 64 in
      case (case dml_timerep colval of
              TIME_TIME \<Rightarrow> Some (input div 1000, input mod 1000)
            | TIME_MICROTIME \<Rightarrow> Some (input div 1000 div 1000, input mod 1000000)
            | TIME_NANOTIME \<Rightarrow> Some (input div 1000 div 1000 div 1000, input mod 1000000000)
            | _ \<Rightarrow> None) of
        None \<Rightarrow> Inl (Elog_ERROR ''no time representation available to process TIMEOID value'')
      | Some (seconds, remains) \<Rightarrow>
          (let base = printf_0d 2 ((seconds div (60 * 60)) mod 24) @ '':''
                 @ printf_0d 2 ((seconds div 60) mod 60) @ '':'' @ printf_0d 2 (seconds mod 60);
               time = take 15 (if dml_typemod colval > 0
                               then base @ ''.'' @ printf_0d 6 remains
                               else base)
           in Inr (Some (add_quotes addquote time))))"

text \<open>
  The bytea branch. Without quoting the decoded bytes are copied as they are; the
  caller reads them as a C string, up to the first zero byte.
\<close>

definition decode_bytea :: "bool \<Rightarrow> string \<Rightarrow> err + string option" where
  "decode_bytea addquote inp =
     (let dstlen = pg_b64_dec_len (length inp) in
      case pg_b64_decode inp dstlen of
        None \<Rightarrow> Inl (Undefined_behaviour ''the length -1 used as a size'')
      | Some bs \<Rightarrow>
          (if addquote then Inr (Some (bytearray_to_escaped_string bs))
           else Inr (Some (map (\<lambda>b. char_of (unat b)) (takeWhile (\<lambda>b. b \<noteq> 0) bs)))))"

subsection \<open>\<^verbatim>\<open>processDataByType\<close>\<close>

definition decode_by_type :: "decoder_env \<Rightarrow> DBZ_DML_COLUMN_VALUE \<Rightarrow> bool \<Rightarrow> string \<Rightarrow> err + string option" where
  "decode_by_type env colval addquote inp =
     (case dml_datatype colval of
        BOOLOID \<Rightarrow> Inr (Some inp)
      | INT8OID \<Rightarrow> Inr (Some inp)
      | INT2OID \<Rightarrow> Inr (Some inp)
      | INT4OID \<Rightarrow> Inr (Some inp)
      | FLOAT8OID \<Rightarrow> Inr (Some inp)
      | FLOAT4OID \<Rightarrow> Inr (Some inp)
      | MONEYOID \<Rightarrow> decode_numeric env colval inp
      | NUMERICOID \<Rightarrow> decode_numeric env colval inp
      | BPCHAROID \<Rightarrow> Inr (decode_text addquote inp)
      | TEXTOID \<Rightarrow> Inr (decode_text addquote inp)
      | VARCHAROID \<Rightarrow> Inr (decode_text addquote inp)
      | CSTRINGOID \<Rightarrow> Inr (decode_text addquote inp)
      | TIMESTAMPTZOID \<Rightarrow> Inr (decode_text addquote inp)
      | JSONBOID \<Rightarrow> Inr (decode_text addquote inp)
      | UUIDOID \<Rightarrow> Inr (decode_text addquote inp)
      | VARBITOID \<Rightarrow> decode_bit colval addquote inp
      | BITOID \<Rightarrow> decode_bit colval addquote inp
      | DATEOID \<Rightarrow> decode_date env colval addquote inp
      | TIMESTAMPOID \<Rightarrow> decode_timestamp colval addquote inp
      | TIMEOID \<Rightarrow> decode_time colval addquote inp
      | BYTEAOID \<Rightarrow> decode_bytea addquote inp
      | TIMETZOID \<Rightarrow> Inr (decode_text addquote inp)
      | OTHEROID n \<Rightarrow> Inr (decode_text addquote inp))"

text \<open>
  After the switch a transform expression registered for the remote column is applied
  to the decoded text. \<^verbatim>\<open>strstr(out, ...)\<close> reads \<^verbatim>\<open>out\<close>, which is a null pointer
  when the switch left it so. A zoned timestamp returns from inside the switch and skips
  this step.
\<close>

definition null_to_zero :: "string \<Rightarrow> string" where
  "null_to_zero s = (if strcasecmp_eq s ''null'' then ''0'' else s)"

definition apply_transform :: "decoder_env \<Rightarrow> DBZ_DML_COLUMN_VALUE \<Rightarrow> string \<Rightarrow> string option \<Rightarrow> err + string option" where
  "apply_transform env colval remoteObjectId out =
     (case transform_data_expression env remoteObjectId (dml_remoteColumnName colval) of
        None \<Rightarrow> Inr out
      | Some transformExpression \<Rightarrow>
          (case out of
             None \<Rightarrow> Inl (Undefined_behaviour ''strstr on a null pointer'')
           | Some outs \<Rightarrow>
               if strstr_found outs ([dquote] @ ''wkb'' @ [dquote]) then
                 (case (json_field env outs ''wkb'', json_field env outs ''srid'') of
                    (Some wkb, Some srid) \<Rightarrow>
                      (case ra_transformDataExpression env (escapeSingleQuote outs False)
                              (Some (null_to_zero wkb)) (Some (null_to_zero srid))
                              transformExpression of
                         None \<Rightarrow> Inr (Some outs)
                       | Some transData \<Rightarrow> Inr (Some transData))
                  | _ \<Rightarrow> Inl (Elog_ERROR ''invalid input syntax for type json''))
               else
                 (case ra_transformDataExpression env (escapeSingleQuote outs False)
                         None None transformExpression of
                    None \<Rightarrow> Inr (Some outs)
                  | Some transData \<Rightarrow> Inr (Some transData))))"

definition processDataByType :: "decoder_env \<Rightarrow> DBZ_DML_COLUMN_VALUE \<Rightarrow> bool \<Rightarrow> string \<Rightarrow> err + string option" where
  "processDataByType env colval addquote remoteObjectId =
     (case dml_value colval of
        None \<Rightarrow> Inr None
      | Some inp \<Rightarrow>
          if length inp = 0 then Inr None
          else if strcasecmp_eq inp ''NULL'' then Inr None
          else if dml_datatype colval = TIMESTAMPOID \<and> dml_timerep colval = TIME_ZONEDTIMESTAMP
            then Inr (decode_text addquote inp)
          else
            (case decode_by_type env colval addquote inp of
               Inl e \<Rightarrow> Inl e
             | Inr out \<Rightarrow> apply_transform env colval remoteObjectId out))"

section \<open>DML translation (format_converter.c)\<close>

record DBZ_DML =
  dbz_op :: char
  dbz_tableoid :: nat
  dbz_remoteObjectId :: string
  dbz_mappedObjectId :: string
  dbz_columnValuesBefore :: "DBZ_DML_COLUMN_VALUE list"
  dbz_columnValuesAfter :: "DBZ_DML_COLUMN_VALUE list"

record PG_DML_COLUMN_VALUE =
  pg_value :: string
  pg_datatype :: Oid
  pg_position :: int

record PG_DML =
  pg_op :: char
  pg_tableoid :: nat
  pg_dmlquery :: string
  pg_columnValuesBefore :: "PG_DML_COLUMN_VALUE list"
  pg_columnValuesAfter :: "PG_DML_COLUMN_VALUE list"

text \<open>
  What every loop of \<^verbatim>\<open>convert2PGDML\<close> does with one column: decode it, with quotes
  for a statement and without for a tuple, and put \<^verbatim>\<open>null\<close> or \<^verbatim>\<open>NULL\<close> where the
  decoder returned no value.
\<close>

definition sql_literal :: "decoder_env \<Rightarrow> string \<Rightarrow> DBZ_DML_COLUMN_VALUE \<Rightarrow> err + string" where
  "sql_literal env remoteObjectId colval =
     (case processDataByType env colval True remoteObjectId of
        Inl e \<Rightarrow> Inl e
      | Inr None \<Rightarrow> Inr ''null''
      | Inr (Some d) \<Rightarrow> Inr d)"

definition tuple_field :: "decoder_env \<Rightarrow> string \<Rightarrow> DBZ_DML_COLUMN_VALUE \<Rightarrow> err + PG_DML_COLUMN_VALUE" where
  "tuple_field env remoteObjectId colval =
     (case processDataByType env colval False remoteObjectId of
        Inl e \<Rightarrow> Inl e
      | Inr d \<Rightarrow> Inr \<lparr>pg_value = (case d of None \<Rightarrow> ''NULL'' | Some s \<Rightarrow> s),
                       pg_datatype = dml_datatype colval,
                       pg_position = dml_position colval\<rparr>)"

text \<open>\<^verbatim>\<open>strinfo.data[strinfo.len - n] = 0; strinfo.len -= n\<close>.\<close>

definition chop :: "nat \<Rightarrow> string \<Rightarrow> string" where
  "chop n s = take (length s - n) s"

fun append_names :: "DBZ_DML_COLUMN_VALUE list \<Rightarrow> string \<Rightarrow> string" where
  "append_names [] strinfo = strinfo"
| "append_names (c # cs) strinfo = append_names cs (strinfo @ dml_name c @ '','')"

fun append_values :: "decoder_env \<Rightarrow> string \<Rightarrow> DBZ_DML_COLUMN_VALUE list \<Rightarrow> string \<Rightarrow> err + string" where
  "append_values env rid [] strinfo = Inr strinfo"
| "append_values env rid (c # cs) strinfo =
     (case sql_literal env rid c of
        Inl e \<Rightarrow> Inl e
      | Inr d \<Rightarrow> append_values env rid cs (strinfo @ d @ '',''))"

fun append_conditions :: "decoder_env \<Rightarrow> string \<Rightarrow> DBZ_DML_COLUMN_VALUE list \<Rightarrow> string \<Rightarrow> err + string" where
  "append_conditions env rid [] strinfo = Inr strinfo"
| "append_conditions env rid (c # cs) strinfo =
     (case sql_literal env rid c of
        Inl e \<Rightarrow> Inl e
      | Inr d \<Rightarrow> append_conditions env rid cs (strinfo @ dml_name c @ '' = '' @ d @ '' AND ''))"

text \<open>
  The \<^verbatim>\<open>SET\<close> list of an update: a decoded value is followed by a comma, the
  \<^verbatim>\<open>null\<close> of a missing value is not.
\<close>

fun append_assignments :: "decoder_env \<Rightarrow> string \<Rightarrow> DBZ_DML_COLUMN_VALUE list \<Rightarrow> string \<Rightarrow> err + string" where
  "append_assignments env rid [] strinfo = Inr strinfo"
| "append_assignments env rid (c # cs) strinfo =
     (case processDataByType env c True rid of
        Inl e \<Rightarrow> Inl e
      | Inr None \<Rightarrow> append_assignments env rid cs (strinfo @ dml_name c @ '' = '' @ ''null'')
      | Inr (Some d) \<Rightarrow> append_assignments env rid cs (strinfo @ dml_name c @ '' = '' @ d @ '',''))"

fun tuple_fields :: "decoder_env \<Rightarrow> string \<Rightarrow> DBZ_DML_COLUMN_VALUE list \<Rightarrow> err + PG_DML_COLUMN_VALUE list" where
  "tuple_fields env rid [] = Inr []"
| "tuple_fields env rid (c # cs) =
     (case tuple_field env rid c of
        Inl e \<Rightarrow> Inl e
      | Inr f \<Rightarrow> (case tuple_fields env rid cs of Inl e \<Rightarrow> Inl e | Inr fs \<Rightarrow> Inr (f # fs)))"

text \<open>
  The tuple branch of an update walks both lists together. It decodes the after-image
  only; for the before-image it reads \<^verbatim>\<open>data\<close> again after \<^verbatim>\<open>pfree(data)\<close>, so a
  decoded value is a use after free, and a missing value gives \<^verbatim>\<open>NULL\<close> on both
  sides.
\<close>

fun update_fields :: "decoder_env \<Rightarrow> string \<Rightarrow> DBZ_DML_COLUMN_VALUE list \<Rightarrow> DBZ_DML_COLUMN_VALUE list
    \<Rightarrow> err + (PG_DML_COLUMN_VALUE list \<times> PG_DML_COLUMN_VALUE list)" where
  "update_fields env rid (ca # cas) (cb # cbs) =
     (case processDataByType env ca False rid of
        Inl e \<Rightarrow> Inl e
      | Inr (Some d) \<Rightarrow> Inl (Undefined_behaviour ''data read after pfree'')
      | Inr None \<Rightarrow>
          (case update_fields env rid cas cbs of
             Inl e \<Rightarrow> Inl e
           | Inr (afters, befores) \<Rightarrow>
               Inr (\<lparr>pg_value = ''NULL'', pg_datatype = dml_datatype ca,
                      pg_position = dml_position ca\<rparr> # afters,
                    \<lparr>pg_value = ''NULL'', pg_datatype = dml_datatype cb,
                      pg_position = dml_position cb\<rparr> # befores)))"
| "update_fields env rid cas cbs = Inr ([], [])"

definition convert2PGDML :: "decoder_env \<Rightarrow> bool \<Rightarrow> DBZ_DML \<Rightarrow> err + PG_DML" where
  "convert2PGDML env synchdb_dml_use_spi dbzdml =
     (let pgdml = \<lparr>pg_op = dbz_op dbzdml, pg_tableoid = dbz_tableoid dbzdml, pg_dmlquery = [],
                    pg_columnValuesBefore = [], pg_columnValuesAfter = []\<rparr>;
          rid = dbz_remoteObjectId dbzdml
      in
      if dbz_op dbzdml = CHR ''r'' \<or> dbz_op dbzdml = CHR ''c'' then
        (if synchdb_dml_use_spi then
           (let s1 = chop 1 (append_names (dbz_columnValuesAfter dbzdml)
                               (''INSERT INTO '' @ dbz_mappedObjectId dbzdml @ ''(''))
                     @ '') VALUES ('' in
            case append_values env rid (dbz_columnValuesAfter dbzdml) s1 of
              Inl e \<Rightarrow> Inl e
            | Inr s2 \<Rightarrow> Inr (pgdml\<lparr>pg_dmlquery := chop 1 s2 @ '');''\<rparr>))
         else
           (case tuple_fields env rid (dbz_columnValuesAfter dbzdml) of
              Inl e \<Rightarrow> Inl e
            | Inr fs \<Rightarrow> Inr (pgdml\<lparr>pg_columnValuesAfter := fs\<rparr>)))
      else if dbz_op dbzdml = CHR ''d'' then
        (if synchdb_dml_use_spi then
           (case append_conditions env rid (dbz_columnValuesBefore dbzdml)
                   (''DELETE FROM '' @ dbz_mappedObjectId dbzdml @ '' WHERE '') of
              Inl e \<Rightarrow> Inl e
            | Inr s1 \<Rightarrow> Inr (pgdml\<lparr>pg_dmlquery := chop 5 s1 @ '';''\<rparr>))
         else
           (case tuple_fields env rid (dbz_columnValuesBefore dbzdml) of
              Inl e \<Rightarrow> Inl e
            | Inr fs \<Rightarrow> Inr (pgdml\<lparr>pg_columnValuesBefore := fs\<rparr>)))
      else if dbz_op dbzdml = CHR ''u'' then
        (if synchdb_dml_use_spi then
           (case append_assignments env rid (dbz_columnValuesAfter dbzdml)
                   (''UPDATE '' @ dbz_mappedObjectId dbzdml @ '' SET '') of
              Inl e \<Rightarrow> Inl e
            | Inr s1 \<Rightarrow>
                (case append_conditions env rid (dbz_columnValuesBefore dbzdml)
                        (chop 1 s1 @ '' WHERE '') of
                   Inl e \<Rightarrow> Inl e
                 | Inr s2 \<Rightarrow> Inr (pgdml\<lparr>pg_dmlquery := chop 5 s2 @ '';''\<rparr>)))
         else
           (case update_fields env rid (dbz_columnValuesAfter dbzdml)
                   (dbz_columnValuesBefore dbzdml) of
              Inl e \<Rightarrow> Inl e
            | Inr (afters, befores) \<Rightarrow>
                Inr (pgdml\<lparr>pg_columnValuesAfter := afters, pg_columnValuesBefore := befores\<rparr>)))
      else Inl (Elog_ERROR (''op '' @ [dbz_op dbzdml] @ '' not supported'')))"

section \<open>Destination applier (replication_agent.c)\<close>

text \<open>
  The destination table is a list of live rows; an attribute of a row is \<open>None\<close> when
  it is null and otherwise the datum its type's input function made of the text. The
  executor of PostgreSQL is taken as given: the input functions (which may raise), whether
  the relation has an identity or primary-key index, the two functions that locate a row
  (the position of the row found, \<open>None\<close> for a miss), the three row primitives
  (which may raise), and the three calls of the server programming interface.
\<close>

type_synonym Datum = string

type_synonym HeapTuple = "Datum option list"

record Relation =
  rel_oid :: nat
  rel_atttypmod :: "int list"
  rel_rows :: "HeapTuple list"

record apply_world =
  aw :: world
  rel :: Relation

record executor =
  OidInputFunctionCall :: "Oid \<Rightarrow> string \<Rightarrow> int \<Rightarrow> err + Datum"
  GetRelationIdentityOrPK :: "Relation \<Rightarrow> bool"
  RelationFindReplTupleByIndex :: "Relation \<Rightarrow> HeapTuple \<Rightarrow> nat option"
  RelationFindReplTupleSeq :: "Relation \<Rightarrow> HeapTuple \<Rightarrow> nat option"
  ExecSimpleRelationInsert :: "Relation \<Rightarrow> HeapTuple \<Rightarrow> err + Relation"
  ExecSimpleRelationUpdate :: "Relation \<Rightarrow> nat \<Rightarrow> HeapTuple \<Rightarrow> err + Relation"
  ExecSimpleRelationDelete :: "Relation \<Rightarrow> nat \<Rightarrow> err + Relation"
  SPI_connect :: int
  SPI_exec :: "string \<Rightarrow> Relation \<Rightarrow> err + int \<times> Relation"
  SPI_finish :: int

definition record_event :: "event \<Rightarrow> apply_world \<Rightarrow> apply_world" where
  "record_event e a = a\<lparr>aw := emit e (aw a)\<rparr>"

text \<open>
  The loop that turns a list of column values into a tuple slot: attribute \<open>i\<close> of
  the descriptor gives the typmod for value \<open>i\<close>, the text \<^verbatim>\<open>NULL\<close> in any case
  marks a null attribute. Only the attributes that were filled are kept.
\<close>

fun fill_slot :: "executor \<Rightarrow> int list \<Rightarrow> PG_DML_COLUMN_VALUE list \<Rightarrow> err + HeapTuple" where
  "fill_slot ex atts [] = Inr []"
| "fill_slot ex [] (c # cs) = Inl (Undefined_behaviour ''attribute outside the tuple descriptor'')"
| "fill_slot ex (atttypmod # atts) (c # cs) =
     (if strcasecmp_eq (pg_value c) ''NULL'' then
        (case fill_slot ex atts cs of Inl e \<Rightarrow> Inl e | Inr vs \<Rightarrow> Inr (None # vs))
      else
        (case OidInputFunctionCall ex (pg_datatype c) (pg_value c) atttypmod of
           Inl e \<Rightarrow> Inl e
         | Inr d \<Rightarrow>
             (case fill_slot ex atts cs of Inl e \<Rightarrow> Inl e | Inr vs \<Rightarrow> Inr (Some d # vs))))"

definition SPI_OK_CONNECT :: int where "SPI_OK_CONNECT = 1"

definition SPI_OK_FINISH :: int where "SPI_OK_FINISH = 2"

definition SPI_OK_UTILITY :: int where "SPI_OK_UTILITY = 4"

definition SPI_OK_INSERT :: int where "SPI_OK_INSERT = 7"

definition SPI_OK_DELETE :: int where "SPI_OK_DELETE = 8"

definition SPI_OK_UPDATE :: int where "SPI_OK_UPDATE = 9"

text \<open>
  \<^verbatim>\<open>spi_execute\<close>. The two early returns leave the function without committing the
  transaction it started.
\<close>

definition spi_execute :: "executor \<Rightarrow> string \<Rightarrow> ConnectorType \<Rightarrow> apply_world
    \<Rightarrow> err + int \<times> apply_world" where
  "spi_execute ex query t a =
     (let a1 = record_event StartTransactionCommand a in
      if SPI_connect ex \<noteq> SPI_OK_CONNECT then
        Inr (- 1, record_event (Elog WARNING ''synchdb_pgsql - SPI_connect failed'') a1)
      else
        (case SPI_exec ex query (rel a1) of
           Inl e \<Rightarrow> Inl e
         | Inr (ret, r') \<Rightarrow>
             if ret = SPI_OK_INSERT \<or> ret = SPI_OK_UTILITY \<or> ret = SPI_OK_DELETE
                \<or> ret = SPI_OK_UPDATE then
               (let a2 = record_event (Elog WARNING (''SPI OK with ret '' @ printf_ld ret))
                           (a1\<lparr>rel := r'\<rparr>);
                    a3 = (if SPI_finish ex \<noteq> SPI_OK_FINISH
                          then record_event (Elog WARNING ''SPI_finish failed'') a2 else a2)
                in Inr (0, record_event CommitTransactionCommand a3))
             else
               Inr (ret, record_event (Elog WARNING (''SPI_exec failed: '' @ printf_ld ret))
                           (a1\<lparr>rel := r'\<rparr>))))"

definition table_open :: "nat \<Rightarrow> apply_world \<Rightarrow> err + Relation" where
  "table_open tableoid a =
     (if rel_oid (rel a) = tableoid then Inr (rel a)
      else Inl (Elog_ERROR ''could not open relation''))"

definition locate :: "executor \<Rightarrow> Relation \<Rightarrow> HeapTuple \<Rightarrow> nat option" where
  "locate ex r remoteslot =
     (if GetRelationIdentityOrPK ex r then RelationFindReplTupleByIndex ex r remoteslot
      else RelationFindReplTupleSeq ex r remoteslot)"

definition locate_msg :: "executor \<Rightarrow> Relation \<Rightarrow> string" where
  "locate_msg ex r =
     (if GetRelationIdentityOrPK ex r then ''attempt to find old tuple by index''
      else ''attempt to find old tuple by seq scan'')"

definition synchdb_handle_insert :: "executor \<Rightarrow> PG_DML_COLUMN_VALUE list \<Rightarrow> nat \<Rightarrow> ConnectorType
    \<Rightarrow> apply_world \<Rightarrow> err + int \<times> apply_world" where
  "synchdb_handle_insert ex colval tableoid t a =
     (let a1 = record_event StartTransactionCommand a in
      case table_open tableoid a1 of
        Inl e \<Rightarrow> Inl e
      | Inr r \<Rightarrow>
          (case fill_slot ex (rel_atttypmod r) colval of
             Inl e \<Rightarrow> Inl e
           | Inr slot \<Rightarrow>
               (case ExecSimpleRelationInsert ex r slot of
                  Inl e \<Rightarrow> Inl e
                | Inr r' \<Rightarrow> Inr (0, record_event CommitTransactionCommand (a1\<lparr>rel := r'\<rparr>)))))"

definition synchdb_handle_update :: "executor \<Rightarrow> PG_DML_COLUMN_VALUE list \<Rightarrow> PG_DML_COLUMN_VALUE list
    \<Rightarrow> nat \<Rightarrow> ConnectorType \<Rightarrow> apply_world \<Rightarrow> err + int \<times> apply_world" where
  "synchdb_handle_update ex colvalbefore colvalafter tableoid t a =
     (let a1 = record_event StartTransactionCommand a in
      case table_open tableoid a1 of
        Inl e \<Rightarrow> Inl e
      | Inr r \<Rightarrow>
          (case fill_slot ex (rel_atttypmod r) colvalbefore of
             Inl e \<Rightarrow> Inl e
           | Inr remoteslot \<Rightarrow>
               (let a2 = record_event (Elog WARNING (locate_msg ex r)) a1 in
                case locate ex r remoteslot of
                  Some localslot \<Rightarrow>
                    (case fill_slot ex (rel_atttypmod r) colvalafter of
                       Inl e \<Rightarrow> Inl e
                     | Inr newslot \<Rightarrow>
                         (case ExecSimpleRelationUpdate ex r localslot newslot of
                            Inl e \<Rightarrow> Inl e
                          | Inr r' \<Rightarrow> Inr (0, record_event CommitTransactionCommand (a2\<lparr>rel := r'\<rparr>))))
                | None \<Rightarrow>
                    Inr (- 1, record_event CommitTransactionCommand
                                (record_event (Elog WARNING ''tuple to update not found'') a2)))))"

definition synchdb_handle_delete :: "executor \<Rightarrow> PG_DML_COLUMN_VALUE list \<Rightarrow> nat \<Rightarrow> ConnectorType
    \<Rightarrow> apply_world \<Rightarrow> err + int \<times> apply_world" where
  "synchdb_handle_delete ex colvalbefore tableoid t a =
     (let a1 = record_event StartTransactionCommand a in
      case table_open tableoid a1 of
        Inl e \<Rightarrow> Inl e
      | Inr r \<Rightarrow>
          (case fill_slot ex (rel_atttypmod r) colvalbefore of
             Inl e \<Rightarrow> Inl e
           | Inr remoteslot \<Rightarrow>
               (let a2 = record_event (Elog WARNING (locate_msg ex r)) a1 in
                case locate ex r remoteslot of
                  Some localslot \<Rightarrow>
                    (case ExecSimpleRelationDelete ex r localslot of
                       Inl e \<Rightarrow> Inl e
                     | Inr r' \<Rightarrow> Inr (0, record_event CommitTransactionCommand (a2\<lparr>rel := r'\<rparr>)))
                | None \<Rightarrow>
                    Inr (- 1, record_event CommitTransactionCommand
                                (record_event (Elog WARNING ''tuple to delete not found'') a2)))))"

definition ra_executePGDML :: "executor \<Rightarrow> bool \<Rightarrow> PG_DML option \<Rightarrow> ConnectorType \<Rightarrow> apply_world
    \<Rightarrow> err + int \<times> apply_world" where
  "ra_executePGDML ex synchdb_dml_use_spi pgdml t a =
     (case pgdml of
        None \<Rightarrow> Inr (- 1, record_event (Elog WARNING ''Invalid DML operation'') a)
      | Some p \<Rightarrow>
          if pg_op p = CHR ''r'' \<or> pg_op p = CHR ''c'' then
            (if synchdb_dml_use_spi then spi_execute ex (pg_dmlquery p) t a
             else synchdb_handle_insert ex (pg_columnValuesAfter p) (pg_tableoid p) t a)
          else if pg_op p = CHR ''u'' then
            (if synchdb_dml_use_spi then spi_execute ex (pg_dmlquery p) t a
             else synchdb_handle_update ex (pg_columnValuesBefore p) (pg_columnValuesAfter p)
                    (pg_tableoid p) t a)
          else if pg_op p = CHR ''d'' then
            (if synchdb_dml_use_spi then spi_execute ex (pg_dmlquery p) t a
             else synchdb_handle_delete ex (pg_columnValuesBefore p) (pg_tableoid p) t a)
          else spi_execute ex (pg_dmlquery p) t a)"

text \<open>
  The DML branch of \<^verbatim>\<open>fc_processDBZChangeEvent\<close>, from the point where the event
  has been read as JSON: \<open>parsed\<close> is what \<^verbatim>\<open>parseDBZDML\<close> returned (\<open>None\<close> for
  its \<^verbatim>\<open>NULL\<close>).
\<close>

definition set_state :: "ConnectorType \<Rightarrow> ConnectorState \<Rightarrow> apply_world \<Rightarrow> apply_world" where
  "set_state t st a = a\<lparr>aw := set_shm_connector_state t st (aw a)\<rparr>"

text \<open>
  Step (3) of that branch with its clean-up: the state goes to \<open>Executing\<close>, the
  converted event is applied, and the state returns to \<open>Syncing\<close>, after a warning
  and with the result \<open>-1\<close> when the applier did not return zero.
\<close>

definition execute_step :: "executor \<Rightarrow> bool \<Rightarrow> PG_DML \<Rightarrow> ConnectorType \<Rightarrow> apply_world
    \<Rightarrow> err + int \<times> apply_world" where
  "execute_step ex synchdb_dml_use_spi pgdml t a2 =
     (let a3 = set_state t STATE_EXECUTING a2 in
      case ra_executePGDML ex synchdb_dml_use_spi (Some pgdml) t a3 of
        Inl e \<Rightarrow> Inl e
      | Inr (ret, a4) \<Rightarrow>
          if ret \<noteq> 0 then
            Inr (- 1, set_state t STATE_SYNCING
                        (record_event (Elog WARNING ''failed to execute PG DML change event'') a4))
          else Inr (0, set_state t STATE_SYNCING a4))"

definition fc_processDBZChangeEvent_DML :: "decoder_env \<Rightarrow> executor \<Rightarrow> bool \<Rightarrow> ConnectorType
    \<Rightarrow> DBZ_DML option \<Rightarrow> apply_world \<Rightarrow> err + int \<times> apply_world" where
  "fc_processDBZChangeEvent_DML env ex synchdb_dml_use_spi t parsed a =
     (let a1 = set_state t STATE_PARSING a in
      case parsed of
        None \<Rightarrow> Inr (- 1, set_state t STATE_SYNCING
                           (record_event (Elog WARNING ''malformed DNL event'') a1))
      | Some dbzdml \<Rightarrow>
          (let a2 = set_state t STATE_CONVERTING a1 in
           case convert2PGDML env synchdb_dml_use_spi dbzdml of
             Inl e \<Rightarrow> Inl e
           | Inr pgdml \<Rightarrow> execute_step ex synchdb_dml_use_spi pgdml t a2))"

text \<open>The events a call appended to the trace of the worker.\<close>

definition applied_events :: "apply_world \<Rightarrow> apply_world \<Rightarrow> event list" where
  "applied_events a a' = new_events (aw a) (aw a')"

section \<open>DDL translation (format_converter.c)\<close>

text \<open>
  \<^verbatim>\<open>DBZ_DDL_COLUMN\<close> and \<^verbatim>\<open>DBZ_DDL\<close>. A column starts zeroed
  (\<^verbatim>\<open>palloc0\<close>), so a string field is a null pointer until the parser sets it. The
  list of primary keys is kept as the JSON text's value; the source keeps the text and
  parses it with \<^verbatim>\<open>jsonb_in\<close> when it builds the key clause.
\<close>

record DBZ_DDL_COLUMN =
  ddl_name :: "string option"
  ddl_length :: int
  ddl_optional :: bool
  ddl_position :: int
  ddl_typeName :: "string option"
  ddl_enumValues :: "string option"
  ddl_charsetName :: "string option"
  ddl_autoIncremented :: bool
  ddl_defaultValueExpression :: "string option"
  ddl_scale :: int

datatype json = JNull | JString string | JNumeric string | JBool bool
  | JArray "json list" | JObject "(string \<times> json) list"

record DBZ_DDL =
  ddl_id :: string
  ddl_type :: string
  ddl_primaryKeyColumnNames :: json
  ddl_columns :: "DBZ_DDL_COLUMN list"

definition empty_column :: DBZ_DDL_COLUMN where
  "empty_column = \<lparr>ddl_name = None, ddl_length = 0, ddl_optional = False, ddl_position = 0,
     ddl_typeName = None, ddl_enumValues = None, ddl_charsetName = None,
     ddl_autoIncremented = False, ddl_defaultValueExpression = None, ddl_scale = 0\<rparr>"

text \<open>
  The part of \<^verbatim>\<open>parseDBZDDL\<close> that consumes one key of a column object with its
  scalar value, given as the text the parser made of it (\<^verbatim>\<open>NULL\<close> for a JSON null,
  \<^verbatim>\<open>true\<close> or \<^verbatim>\<open>false\<close> for a boolean, the digits of a number).
\<close>

definition consume_key_value :: "string \<times> string \<Rightarrow> DBZ_DDL_COLUMN \<Rightarrow> DBZ_DDL_COLUMN" where
  "consume_key_value kv ddlcol =
     (let key = fst kv; val = snd kv in
      if key = ''name'' then ddlcol\<lparr>ddl_name := Some val\<rparr>
      else if key = ''length'' then ddlcol\<lparr>ddl_length := (if val = ''NULL'' then 0 else atoi val)\<rparr>
      else if key = ''optional'' then ddlcol\<lparr>ddl_optional := (val = ''true'')\<rparr>
      else if key = ''position'' then ddlcol\<lparr>ddl_position := atoi val\<rparr>
      else if key = ''typeName'' then ddlcol\<lparr>ddl_typeName := Some val\<rparr>
      else if key = ''enumValues'' then ddlcol\<lparr>ddl_enumValues := Some val\<rparr>
      else if key = ''charsetName'' then ddlcol\<lparr>ddl_charsetName := Some val\<rparr>
      else if key = ''autoIncremented'' then ddlcol\<lparr>ddl_autoIncremented := (val = ''true'')\<rparr>
      else if key = ''defaultValueExpression'' then ddlcol\<lparr>ddl_defaultValueExpression := Some val\<rparr>
      else if key = ''scale'' then ddlcol\<lparr>ddl_scale := (if val = ''NULL'' then 0 else atoi val)\<rparr>
      else ddlcol)"

definition parse_column :: "(string \<times> string) list \<Rightarrow> DBZ_DDL_COLUMN" where
  "parse_column kvs = foldl (\<lambda>c kv. consume_key_value kv c) empty_column kvs"

subsection \<open>Type mapping\<close>

text \<open>
  \<^verbatim>\<open>DatatypeHashEntry\<close>: the key is the source type name with the auto-increment
  flag, the value the destination type name with a length (\<open>-1\<close> keeps the length of
  the source). \<^verbatim>\<open>init_mysql\<close> and \<^verbatim>\<open>init_sqlserver\<close> enter the default tables into
  a hash table, the first entry of a key winning.
\<close>

type_synonym DatatypeHashKey = "string \<times> bool"

type_synonym DatatypeHash = "DatatypeHashKey \<Rightarrow> (string \<times> int) option"

definition mysql_defaultTypeMappings :: "(DatatypeHashKey \<times> string \<times> int) list" where
  "mysql_defaultTypeMappings = [
     ((''INT'', True), ''SERIAL'', 0),
     ((''BIGINT'', True), ''BIGSERIAL'', 0),
     ((''SMALLINT'', True), ''SMALLSERIAL'', 0),
     ((''MEDIUMINT'', True), ''SERIAL'', 0),
     ((''ENUM'', False), ''TEXT'', 0),
     ((''SET'', False), ''TEXT'', 0),
     ((''BIGINT'', False), ''BIGINT'', 0),
     ((''BIGINT UNSIGNED'', False), ''NUMERIC'', - 1),
     ((''NUMERIC UNSIGNED'', False), ''NUMERIC'', - 1),
     ((''DEC'', False), ''DECIMAL'', - 1),
     ((''DEC UNSIGNED'', False), ''DECIMAL'', - 1),
     ((''DECIMAL UNSIGNED'', False), ''DECIMAL'', - 1),
     ((''FIXED'', False), ''DECIMAL'', - 1),
     ((''FIXED UNSIGNED'', False), ''DECIMAL'', - 1),
     ((''BIT(1)'', False), ''BOOLEAN'', 0),
     ((''BIT'', False), ''BIT'', - 1),
     ((''BOOL'', False), ''BOOLEAN'', - 1),
     ((''DOUBLE'', False), ''DOUBLE PRECISION'', 0),
     ((''DOUBLE PRECISION'', False), ''DOUBLE PRECISION'', 0),
     ((''DOUBLE PRECISION UNSIGNED'', False), ''DOUBLE PRECISION'', 0),
     ((''DOUBLE UNSIGNED'', False), ''DOUBLE PRECISION'', 0),
     ((''REAL'', False), ''REAL'', 0),
     ((''REAL UNSIGNED'', False), ''REAL'', 0),
     ((''FLOAT'', False), ''REAL'', 0),
     ((''FLOAT UNSIGNED'', False), ''REAL'', 0),
     ((''INT'', False), ''INT'', 0),
     ((''INT UNSIGNED'', False), ''BIGINT'', 0),
     ((''INTEGER'', False), ''INT'', 0),
     ((''INTEGER UNSIGNED'', False), ''BIGINT'', 0),
     ((''MEDIUMINT'', False), ''INT'', 0),
     ((''MEDIUMINT UNSIGNED'', False), ''INT'', 0),
     ((''YEAR'', False), ''INT'', 0),
     ((''SMALLINT'', False), ''SMALLINT'', 0),
     ((''SMALLINT UNSIGNED'', False), ''INT'', 0),
     ((''TINYINT'', False), ''SMALLINT'', 0),
     ((''TINYINT UNSIGNED'', False), ''SMALLINT'', 0),
     ((''DATETIME'', False), ''TIMESTAMP'', - 1),
     ((''TIMESTAMP'', False), ''TIMESTAMPTZ'', - 1),
     ((''BINARY'', False), ''BYTEA'', 0),
     ((''VARBINARY'', False), ''BYTEA'', 0),
     ((''BLOB'', False), ''BYTEA'', 0),
     ((''MEDIUMBLOB'', False), ''BYTEA'', 0),
     ((''LONGBLOB'', False), ''BYTEA'', 0),
     ((''TINYBLOB'', False), ''BYTEA'', 0),
     ((''LONG VARCHAR'', False), ''TEXT'', - 1),
     ((''LONGTEXT'', False), ''TEXT'', - 1),
     ((''MEDIUMTEXT'', False), ''TEXT'', - 1),
     ((''TINYTEXT'', False), ''TEXT'', - 1),
     ((''JSON'', False), ''JSONB'', - 1),
     ((''GEOMETRY'', False), ''TEXT'', - 1),
     ((''GEOMETRYCOLLECTION'', False), ''TEXT'', - 1),
     ((''GEOMCOLLECTION'', False), ''TEXT'', - 1),
     ((''LINESTRING'', False), ''TEXT'', - 1),
     ((''MULTILINESTRING'', False), ''TEXT'', - 1),
     ((''MULTIPOINT'', False), ''TEXT'', - 1),
     ((''MULTIPOLYGON'', False), ''TEXT'', - 1),
     ((''POINT'', False), ''TEXT'', - 1),
     ((''POLYGON'', False), ''TEXT'', - 1)]"

definition sqlserver_defaultTypeMappings :: "(DatatypeHashKey \<times> string \<times> int) list" where
  "sqlserver_defaultTypeMappings = [
     ((''int identity'', True), ''SERIAL'', 0),
     ((''bigint identity'', True), ''BIGSERIAL'', 0),
     ((''smallint identity'', True), ''SMALLSERIAL'', 0),
     ((''enum'', False), ''TEXT'', 0),
     ((''int'', False), ''INT'', 0),
     ((''bigint'', False), ''BIGINT'', 0),
     ((''smallint'', False), ''SMALLINT'', 0),
     ((''tinyint'', False), ''SMALLINT'', 0),
     ((''numeric'', False), ''NUMERIC'', 0),
     ((''decimal'', False), ''NUMERIC'', 0),
     ((''bit(1)'', False), ''BOOL'', 0),
     ((''bit'', False), ''BIT'', 0),
     ((''money'', False), ''MONEY'', 0),
     ((''smallmoney'', False), ''MONEY'', 0),
     ((''real'', False), ''REAL'', 0),
     ((''float'', False), ''REAL'', 0),
     ((''date'', False), ''DATE'', 0),
     ((''time'', False), ''TIME'', 0),
     ((''datetime'', False), ''TIMESTAMP'', 0),
     ((''datetime2'', False), ''TIMESTAMP'', 0),
     ((''datetimeoffset'', False), ''TIMESTAMPTZ'', 0),
     ((''smalldatetime'', False), ''TIMESTAMP'', 0),
     ((''char'', False), ''CHAR'', 0),
     ((''varchar'', False), ''VARCHAR'', - 1),
     ((''text'', False), ''TEXT'', 0),
     ((''nchar'', False), ''CHAR'', 0),
     ((''nvarchar'', False), ''VARCHAR'', - 1),
     ((''ntext'', False), ''TEXT'', 0),
     ((''binary'', False), ''BYTEA'', 0),
     ((''varbinary'', False), ''BYTEA'', 0),
     ((''image'', False), ''BYTEA'', 0),
     ((''uniqueidentifier'', False), ''UUID'', 0),
     ((''xml'', False), ''TEXT'', 0),
     ((''geometry'', False), ''TEXT'', 0),
     ((''geography'', False), ''TEXT'', 0)]"

definition init_mysql :: DatatypeHash where
  "init_mysql = map_of mysql_defaultTypeMappings"

definition init_sqlserver :: DatatypeHash where
  "init_sqlserver = map_of sqlserver_defaultTypeMappings"

text \<open>
  The state of the converter that the DDL translator reads: the two type tables, as
  left by the initialisation and by the rule file, and the table of object names of the
  rule file (\<open>None\<close> when no rule file was loaded).
\<close>

record converter =
  mysqlDatatypeHash :: DatatypeHash
  sqlserverDatatypeHash :: DatatypeHash
  objectMappingHash :: "(string \<times> string \<Rightarrow> string option) option"

definition transform_object_name :: "converter \<Rightarrow> string \<Rightarrow> string \<Rightarrow> string option" where
  "transform_object_name cv objid objtype =
     (case objectMappingHash cv of
        None \<Rightarrow> None
      | Some h \<Rightarrow> h (objid, objtype))"

text \<open>\<^verbatim>\<open>MaxAttrSize\<close> of PostgreSQL.\<close>

definition MaxAttrSize :: int where
  "MaxAttrSize = 10 * 1024 * 1024"

definition c_isalnum :: "char \<Rightarrow> bool" where
  "c_isalnum c = (let n = (of_char c :: nat) in
     (48 \<le> n \<and> n \<le> 57) \<or> (65 \<le> n \<and> n \<le> 90) \<or> (97 \<le> n \<and> n \<le> 122))"

text \<open>
  \<^verbatim>\<open>find_exact_string_match\<close>: the first occurrence of the word, with no letter or
  digit next to it on either side. \<open>first_occurrence\<close> is \<^verbatim>\<open>strstr\<close> as a position.
\<close>

fun first_occurrence :: "string \<Rightarrow> string \<Rightarrow> nat option" where
  "first_occurrence [] needle = (if needle = [] then Some 0 else None)"
| "first_occurrence (h # hs) needle =
     (if is_prefix needle (h # hs) then Some 0
      else map_option Suc (first_occurrence hs needle))"

definition find_exact_string_match :: "string \<Rightarrow> string \<Rightarrow> bool" where
  "find_exact_string_match line wordtofind =
     (case first_occurrence line wordtofind of
        None \<Rightarrow> False
      | Some p \<Rightarrow>
          if p = 0 \<or> \<not> c_isalnum (line ! (p - 1)) then
            (let q = p + length wordtofind in
             if q < length line then \<not> c_isalnum (line ! q) else True)
          else False)"

subsection \<open>\<^verbatim>\<open>transformDDLColumns\<close>\<close>

text \<open>
  The function appends to \<^verbatim>\<open>strinfo\<close> and may replace the name and the length of
  the column; the model returns both. A null \<^verbatim>\<open>name\<close> prints as \<^verbatim>\<open>(null)\<close>; a
  null \<^verbatim>\<open>typeName\<close> reaches \<^verbatim>\<open>strcasecmp\<close>.
\<close>

definition str_or_null :: "string option \<Rightarrow> string" where
  "str_or_null s = (case s of None \<Rightarrow> ''(null)'' | Some x \<Rightarrow> x)"

definition type_key :: "string \<Rightarrow> string \<Rightarrow> DBZ_DDL_COLUMN \<Rightarrow> string \<Rightarrow> DatatypeHashKey" where
  "type_key bitname typeName col qualifier =
     (if strcasecmp_eq typeName bitname \<and> ddl_length col = 1
      then (qualifier @ typeName @ ''('' @ printf_ld (ddl_length col) @ '')'', ddl_autoIncremented col)
      else (qualifier @ typeName, ddl_autoIncremented col))"

definition lookup_type :: "DatatypeHash \<Rightarrow> string \<Rightarrow> string \<Rightarrow> string \<Rightarrow> DBZ_DDL_COLUMN
    \<Rightarrow> (string \<times> int) option" where
  "lookup_type h bitname colNameObjId typeName col =
     (case h (type_key bitname typeName col (colNameObjId @ ''.'')) of
        Some entry \<Rightarrow> Some entry
      | None \<Rightarrow> h (type_key bitname typeName col []))"

definition append_type :: "bool \<Rightarrow> DBZ_DDL_COLUMN \<Rightarrow> string \<Rightarrow> string \<Rightarrow> string" where
  "append_type datatypeonly col tyname strinfo =
     (if datatypeonly then strinfo @ '' '' @ tyname @ '' ''
      else strinfo @ '' '' @ str_or_null (ddl_name col) @ '' '' @ tyname @ '' '')"

definition apply_mapping :: "bool \<Rightarrow> DBZ_DDL_COLUMN \<Rightarrow> string \<Rightarrow> (string \<times> int) option \<Rightarrow> string
    \<Rightarrow> DBZ_DDL_COLUMN \<times> string" where
  "apply_mapping datatypeonly col typeName entry strinfo =
     (case entry of
        None \<Rightarrow> (col, append_type datatypeonly col typeName strinfo)
      | Some (pgsqlTypeName, pgsqlTypeLength) \<Rightarrow>
          ((if pgsqlTypeLength \<noteq> - 1 then col\<lparr>ddl_length := pgsqlTypeLength\<rparr> else col),
           append_type datatypeonly col pgsqlTypeName strinfo))"

definition transformDDLColumns :: "converter \<Rightarrow> string \<Rightarrow> DBZ_DDL_COLUMN \<Rightarrow> ConnectorType \<Rightarrow> bool
    \<Rightarrow> string \<Rightarrow> err + DBZ_DDL_COLUMN \<times> string" where
  "transformDDLColumns cv id0 col0 conntype datatypeonly strinfo =
     (let colNameObjId = id0 @ ''.'' @ str_or_null (ddl_name col0);
          col = (case transform_object_name cv colNameObjId ''column'' of
                   None \<Rightarrow> col0
                 | Some mappedColumnName \<Rightarrow> col0\<lparr>ddl_name := Some mappedColumnName\<rparr>)
      in
      case conntype of
        TYPE_MYSQL \<Rightarrow>
          (case ddl_typeName col of
             None \<Rightarrow> Inl (Undefined_behaviour ''strcasecmp on a null pointer'')
           | Some typeName \<Rightarrow>
               Inr (apply_mapping datatypeonly col typeName
                      (lookup_type (mysqlDatatypeHash cv) ''BIT'' colNameObjId typeName col)
                      strinfo))
      | TYPE_ORACLE \<Rightarrow> Inr (col, strinfo)
      | TYPE_SQLSERVER \<Rightarrow>
          (case ddl_typeName col of
             None \<Rightarrow> Inl (Undefined_behaviour ''strcasecmp on a null pointer'')
           | Some typeName \<Rightarrow>
               (let entry = lookup_type (sqlserverDatatypeHash cv) ''bit'' colNameObjId typeName col;
                    res = apply_mapping datatypeonly col typeName entry strinfo
                in
                if ddl_scale col > 0 then
                  (case entry of
                     None \<Rightarrow> Inl (Undefined_behaviour ''read through a null entry'')
                   | Some (pgsqlTypeName, pgsqlTypeLength) \<Rightarrow>
                       if find_exact_string_match pgsqlTypeName ''TIMESTAMP''
                          \<or> find_exact_string_match pgsqlTypeName ''TIME''
                          \<or> find_exact_string_match pgsqlTypeName ''TIMESTAMPTZ''
                       then
                         (if ddl_scale col > 6 then Inr (fst res, snd res @ ''(6) '')
                          else Inr (fst res, snd res @ ''('' @ printf_ld (ddl_scale col) @ '') ''))
                       else Inr res)
                else Inr res))
      | TYPE_UNDEF \<Rightarrow>
          Inr (col, strinfo @ '' '' @ str_or_null (ddl_name col) @ '' ''
                      @ str_or_null (ddl_typeName col) @ '' ''))"

subsection \<open>\<^verbatim>\<open>populate_primary_keys\<close>\<close>

text \<open>
  The tokens \<^verbatim>\<open>JsonbIteratorNext\<close> yields for a JSON value, nested containers
  included. A scalar at the top is stored by PostgreSQL as an array of one element.
\<close>

datatype jtoken = WJB_BEGIN_ARRAY | WJB_END_ARRAY | WJB_ELEM json | WJB_BEGIN_OBJECT
  | WJB_END_OBJECT | WJB_KEY string | WJB_VALUE json

fun json_tokens :: "bool \<Rightarrow> json \<Rightarrow> jtoken list"
  and elems_tokens :: "json list \<Rightarrow> jtoken list"
  and pairs_tokens :: "(string \<times> json) list \<Rightarrow> jtoken list" where
  "json_tokens inobj (JArray xs) = WJB_BEGIN_ARRAY # elems_tokens xs @ [WJB_END_ARRAY]"
| "json_tokens inobj (JObject kvs) = WJB_BEGIN_OBJECT # pairs_tokens kvs @ [WJB_END_OBJECT]"
| "json_tokens inobj JNull = [if inobj then WJB_VALUE JNull else WJB_ELEM JNull]"
| "json_tokens inobj (JString s) = [if inobj then WJB_VALUE (JString s) else WJB_ELEM (JString s)]"
| "json_tokens inobj (JNumeric s) = [if inobj then WJB_VALUE (JNumeric s) else WJB_ELEM (JNumeric s)]"
| "json_tokens inobj (JBool b) = [if inobj then WJB_VALUE (JBool b) else WJB_ELEM (JBool b)]"
| "elems_tokens [] = []"
| "elems_tokens (x # xs) = json_tokens False x @ elems_tokens xs"
| "pairs_tokens [] = []"
| "pairs_tokens (kv # kvs) = WJB_KEY (fst kv) # json_tokens True (snd kv) @ pairs_tokens kvs"

definition root_tokens :: "json \<Rightarrow> jtoken list" where
  "root_tokens j = (case j of
     JArray xs \<Rightarrow> json_tokens False j
   | JObject kvs \<Rightarrow> json_tokens False j
   | _ \<Rightarrow> WJB_BEGIN_ARRAY # json_tokens False j @ [WJB_END_ARRAY])"

fun populate_loop :: "converter \<Rightarrow> string \<Rightarrow> bool \<Rightarrow> jtoken list \<Rightarrow> bool \<Rightarrow> string \<Rightarrow> err + string" where
  "populate_loop cv id0 alter [] isfirst strinfo = Inr strinfo"
| "populate_loop cv id0 alter (WJB_BEGIN_ARRAY # ts) isfirst strinfo =
     populate_loop cv id0 alter ts isfirst strinfo"
| "populate_loop cv id0 alter (WJB_END_ARRAY # ts) isfirst strinfo =
     populate_loop cv id0 alter ts isfirst (if \<not> isfirst then chop 1 strinfo @ '')'' else strinfo)"
| "populate_loop cv id0 alter (WJB_ELEM (JString v) # ts) isfirst strinfo =
     (let val = (case transform_object_name cv (id0 @ ''.'' @ v) ''column'' of
                   None \<Rightarrow> v | Some mappedColumnName \<Rightarrow> mappedColumnName)
      in populate_loop cv id0 alter ts False
           (if isfirst then
              strinfo @ (if alter then '', ADD PRIMARY KEY('' else '', PRIMARY KEY('') @ val @ '',''
            else strinfo @ val @ '',''))"
| "populate_loop cv id0 alter (WJB_VALUE (JString v) # ts) isfirst strinfo =
     (let val = (case transform_object_name cv (id0 @ ''.'' @ v) ''column'' of
                   None \<Rightarrow> v | Some mappedColumnName \<Rightarrow> mappedColumnName)
      in populate_loop cv id0 alter ts False
           (if isfirst then
              strinfo @ (if alter then '', ADD PRIMARY KEY('' else '', PRIMARY KEY('') @ val @ '',''
            else strinfo @ val @ '',''))"
| "populate_loop cv id0 alter (WJB_ELEM v # ts) isfirst strinfo =
     Inl (Elog_ERROR ''Unknown or unexpected value type while parsing primaryKeyColumnNames'')"
| "populate_loop cv id0 alter (WJB_VALUE v # ts) isfirst strinfo =
     Inl (Elog_ERROR ''Unknown or unexpected value type while parsing primaryKeyColumnNames'')"
| "populate_loop cv id0 alter (t # ts) isfirst strinfo =
     Inl (Elog_ERROR ''Unknown or unexpected token while parsing primaryKeyColumnNames'')"

definition populate_primary_keys :: "converter \<Rightarrow> string \<Rightarrow> string \<Rightarrow> json \<Rightarrow> bool \<Rightarrow> err + string" where
  "populate_primary_keys cv strinfo id0 jsonin alter =
     populate_loop cv id0 alter (root_tokens jsonin) True strinfo"

subsection \<open>\<^verbatim>\<open>splitIdString\<close> and the CREATE branch of \<^verbatim>\<open>convert2PGDDL\<close>\<close>

definition splitIdString :: "string \<Rightarrow> bool \<Rightarrow> string option \<times> string option \<times> string option" where
  "splitIdString id0 usedb =
     (let dotCount = length (filter (\<lambda>c. c = CHR ''.'') id0);
          toks = strtok_dot [] id0
      in
      if dotCount = 1 then
        (if usedb then (nth_token toks 0, None, nth_token toks 1)
         else (None, nth_token toks 0, nth_token toks 1))
      else if dotCount = 2 then (nth_token toks 0, nth_token toks 1, nth_token toks 2)
      else if dotCount = 0 then (None, None, Some id0)
      else (None, None, None))"

text \<open>
  The clauses that follow the type of one column in \<^verbatim>\<open>CREATE TABLE\<close>; the length
  is the one \<^verbatim>\<open>transformDDLColumns\<close> left in the column.
\<close>

definition column_clauses :: "DBZ_DDL_COLUMN \<Rightarrow> string \<Rightarrow> err + string" where
  "column_clauses col strinfo =
     (let s1 = (if ddl_length col > 0 \<and> ddl_scale col > 0
                then strinfo @ ''('' @ printf_ld (ddl_length col) @ '', ''
                       @ printf_ld (ddl_scale col) @ '') ''
                else strinfo);
          s2 = (if ddl_length col > 0 \<and> ddl_scale col = 0
                then s1 @ ''('' @ printf_ld (if ddl_length col > MaxAttrSize then MaxAttrSize
                                              else ddl_length col) @ '') ''
                else s1)
      in
      case ddl_typeName col of
        None \<Rightarrow> Inl (Undefined_behaviour ''strstr on a null pointer'')
      | Some typeName \<Rightarrow>
          (let s3 = (if strstr_found typeName ''UNSIGNED''
                     then s2 @ ''CHECK ('' @ str_or_null (ddl_name col) @ '' >= 0) '' else s2);
               s4 = (if \<not> ddl_optional col then s3 @ ''NOT NULL '' else s3);
               s5 = (case ddl_defaultValueExpression col of
                       None \<Rightarrow> s4
                     | Some d \<Rightarrow>
                         if length d > 0 \<and> \<not> ddl_autoIncremented col
                         then s4 @ ''DEFAULT '' @ d @ '' '' else s4)
           in Inr (s5 @ '','')))"

fun create_columns :: "converter \<Rightarrow> string \<Rightarrow> ConnectorType \<Rightarrow> DBZ_DDL_COLUMN list \<Rightarrow> string \<Rightarrow> err + string" where
  "create_columns cv id0 t [] strinfo = Inr strinfo"
| "create_columns cv id0 t (col # cols) strinfo =
     (case transformDDLColumns cv id0 col t False strinfo of
        Inl e \<Rightarrow> Inl e
      | Inr (col', s1) \<Rightarrow>
          (case column_clauses col' s1 of
             Inl e \<Rightarrow> Inl e
           | Inr s2 \<Rightarrow> create_columns cv id0 t cols s2))"

definition create_table_head :: "converter \<Rightarrow> DBZ_DDL \<Rightarrow> err + string" where
  "create_table_head cv dbzddl =
     (case transform_object_name cv (ddl_id dbzddl) ''table'' of
        Some mappedObjName \<Rightarrow>
          (case splitIdString mappedObjName False of
             (db, schema, None) \<Rightarrow>
               Inl (Elog_ERROR (''transformed object ID is invalid: '' @ mappedObjName))
           | (db, Some schema, Some table) \<Rightarrow>
               Inr (''CREATE SCHEMA IF NOT EXISTS '' @ schema @ ''; ''
                    @ ''CREATE TABLE IF NOT EXISTS '' @ schema @ ''.'' @ table @ '' ('')
           | (db, None, Some table) \<Rightarrow>
               Inr (''CREATE TABLE IF NOT EXISTS '' @ table @ '' (''))
      | None \<Rightarrow>
          (case splitIdString (ddl_id dbzddl) True of
             (Some db, schema, Some table) \<Rightarrow>
               Inr (''CREATE SCHEMA IF NOT EXISTS '' @ db @ ''; ''
                    @ ''CREATE TABLE IF NOT EXISTS '' @ db @ ''.'' @ table @ '' ('')
           | _ \<Rightarrow>
               Inl (Elog_ERROR (''malformed id field in dbz change event: '' @ ddl_id dbzddl))))"

text \<open>
  The branch of \<^verbatim>\<open>convert2PGDDL\<close> taken when the type of the event is
  \<^verbatim>\<open>CREATE\<close>; the result is \<^verbatim>\<open>pgddl->ddlquery\<close>.
\<close>

definition convert2PGDDL_CREATE :: "converter \<Rightarrow> DBZ_DDL \<Rightarrow> ConnectorType \<Rightarrow> err + string" where
  "convert2PGDDL_CREATE cv dbzddl t =
     (case create_table_head cv dbzddl of
        Inl e \<Rightarrow> Inl e
      | Inr s0 \<Rightarrow>
          (case create_columns cv (ddl_id dbzddl) t (ddl_columns dbzddl) s0 of
             Inl e \<Rightarrow> Inl e
           | Inr s1 \<Rightarrow>
               (case populate_primary_keys cv (chop 1 s1) (ddl_id dbzddl)
                       (ddl_primaryKeyColumnNames dbzddl) False of
                  Inl e \<Rightarrow> Inl e
                | Inr s2 \<Rightarrow> Inr (s2 @ '');''))))"

text \<open>Equality of two statements up to white space: all of it is removed on both sides.\<close>

definition strip_whitespace :: "string \<Rightarrow> string" where
  "strip_whitespace s = filter (\<lambda>c. \<not> c_isspace c) s"

section \<open>Starting a connector (synchdb.c)\<close>

text \<open>
  \<^verbatim>\<open>synchdb_start_engine_bgw\<close> takes eight SQL arguments, seven of them of type
  \<^verbatim>\<open>text\<close> and fetched with \<^verbatim>\<open>PG_GETARG_TEXT_PP\<close>. That macro hands over a pointer to
  a varlena that is neither compressed nor stored out of line, but it leaves the header
  as it finds it: four bytes holding the total size shifted left by two, or, for a value
  of at most 126 bytes that was packed into a tuple, a single byte holding the total size
  shifted left by one with the lowest bit set. A pointer is modelled by the bytes found
  at increasing offsets from it, the datum first and then whatever follows it in memory.
  The macros are those of PostgreSQL's \<^verbatim>\<open>varatt.h\<close> for a little-endian machine, and the
  port is read with \<^verbatim>\<open>PG_GETARG_UINT32\<close>.
\<close>

type_synonym varlena_ptr = "nat \<Rightarrow> char"

definition VARHDRSZ :: nat where "VARHDRSZ = 4"

definition VARHDRSZ_SHORT :: nat where "VARHDRSZ_SHORT = 1"

text \<open>The \<^verbatim>\<open>uint32\<close> read through \<^verbatim>\<open>va_4byte.va_header\<close>.\<close>

definition va_header :: "varlena_ptr \<Rightarrow> nat" where
  "va_header p = of_char (p 0) + 256 * of_char (p 1) + 65536 * of_char (p 2)
                 + 16777216 * of_char (p 3)"

definition VARSIZE_4B :: "varlena_ptr \<Rightarrow> nat" where
  "VARSIZE_4B p = (va_header p div 4) mod 2 ^ 30"

definition VARSIZE :: "varlena_ptr \<Rightarrow> nat" where
  "VARSIZE p = VARSIZE_4B p"

definition VARATT_IS_4B_U :: "varlena_ptr \<Rightarrow> bool" where
  "VARATT_IS_4B_U p = ((of_char (p 0) :: nat) mod 4 = 0)"

definition VARATT_IS_1B :: "varlena_ptr \<Rightarrow> bool" where
  "VARATT_IS_1B p = ((of_char (p 0) :: nat) mod 2 = 1)"

definition VARATT_IS_1B_E :: "varlena_ptr \<Rightarrow> bool" where
  "VARATT_IS_1B_E p = ((of_char (p 0) :: nat) = 1)"

definition VARSIZE_1B :: "varlena_ptr \<Rightarrow> nat" where
  "VARSIZE_1B p = (of_char (p 0) div 2) mod 128"

text \<open>
  What \<^verbatim>\<open>PG_GETARG_TEXT_PP\<close> can return: a short header that is not the tag of an
  external datum, or an uncompressed four-byte header whose size covers the header.
\<close>

definition detoasted_packed :: "varlena_ptr \<Rightarrow> bool" where
  "detoasted_packed p =
     (if VARATT_IS_1B p then \<not> VARATT_IS_1B_E p
      else VARATT_IS_4B_U p \<and> VARHDRSZ \<le> VARSIZE_4B p)"

text \<open>
  \<^verbatim>\<open>VARSIZE(t) - VARHDRSZ\<close>, in unsigned arithmetic. \<^verbatim>\<open>VARSIZE\<close> reads the four-byte
  header whatever header the datum has.
\<close>

definition VARSIZE_minus_VARHDRSZ :: "varlena_ptr \<Rightarrow> nat" where
  "VARSIZE_minus_VARHDRSZ p = (VARSIZE p + 2 ^ 32 - VARHDRSZ) mod 2 ^ 32"

text \<open>
  \<^verbatim>\<open>text_to_cstring\<close> copies \<^verbatim>\<open>VARSIZE_ANY_EXHDR\<close> bytes from \<^verbatim>\<open>VARDATA_ANY\<close>; both
  macros look at the kind of header first. A text holds no zero byte, so the C string
  is those bytes.
\<close>

definition VARSIZE_ANY_EXHDR :: "varlena_ptr \<Rightarrow> nat" where
  "VARSIZE_ANY_EXHDR p =
     (if VARATT_IS_1B p then VARSIZE_1B p - VARHDRSZ_SHORT else VARSIZE_4B p - VARHDRSZ)"

definition VARDATA_ANY :: "varlena_ptr \<Rightarrow> nat" where
  "VARDATA_ANY p = (if VARATT_IS_1B p then VARHDRSZ_SHORT else VARHDRSZ)"

definition text_to_cstring :: "varlena_ptr \<Rightarrow> string" where
  "text_to_cstring p = map p [VARDATA_ANY p ..< VARDATA_ANY p + VARSIZE_ANY_EXHDR p]"

record ConnectionInfo =
  hostname :: string
  port :: "32 word"
  user :: string
  pwd :: string
  src_db :: string
  dst_db :: string
  table :: string

record BackgroundWorker =
  bgw_library_name :: string
  bgw_function_name :: string
  bgw_main_arg :: ConnectorType
  bgw_name :: string
  bgw_type :: string
  bgw_extra :: string

text \<open>
  What the postmaster answers: whether \<^verbatim>\<open>RegisterDynamicBackgroundWorker\<close> accepted the
  worker and whether \<^verbatim>\<open>WaitForBackgroundWorkerStartup\<close> reported it started.
\<close>

record postmaster =
  registered :: bool
  started :: bool

definition fc_get_connector_type :: "string \<Rightarrow> ConnectorType" where
  "fc_get_connector_type connector =
     (if strcasecmp_eq connector ''mysql'' then TYPE_MYSQL
      else if strcasecmp_eq connector ''oracle'' then TYPE_ORACLE
      else if strcasecmp_eq connector ''sqlserver'' then TYPE_SQLSERVER
      else TYPE_UNDEF)"

definition BGW_MAXLEN :: nat where "BGW_MAXLEN = 96"

definition BGW_EXTRALEN :: nat where "BGW_EXTRALEN = 128"

text \<open>
  \<^verbatim>\<open>prepare_bgw\<close>. \<^verbatim>\<open>snprintf\<close> cuts the name and the extra arguments to their
  buffers; the two \<^verbatim>\<open>strcat\<close> that follow do not check the room left in the name.
\<close>

definition prepare_bgw :: "BackgroundWorker \<Rightarrow> ConnectionInfo \<Rightarrow> string \<Rightarrow> err + BackgroundWorker" where
  "prepare_bgw worker connInfo connector =
     (let t = fc_get_connector_type connector;
          label = (case t of TYPE_MYSQL \<Rightarrow> ''mysql'' | TYPE_ORACLE \<Rightarrow> ''oracle''
                   | TYPE_SQLSERVER \<Rightarrow> ''sqlserver'' | TYPE_UNDEF \<Rightarrow> []);
          name0 = take (BGW_MAXLEN - 1) (''synchdb engine: '' @ label @ ''@'' @ hostname connInfo
                    @ '':'' @ dec_digits (unat (port connInfo)));
          name1 = name0 @ '' -> '' @ dst_db connInfo
      in
      if t = TYPE_UNDEF then Inl (Elog_ERROR ''unsupported connector type'')
      else if length name1 > BGW_MAXLEN - 1 then
        Inl (Undefined_behaviour ''strcat past the end of bgw_name'')
      else
        Inr (worker\<lparr>bgw_main_arg := t,
                    bgw_name := name1,
                    bgw_type := ''synchdb engine: '' @ label,
                    bgw_extra := take (BGW_EXTRALEN - 1)
                      (hostname connInfo @ '':'' @ dec_digits (unat (port connInfo)) @ '':''
                       @ user connInfo @ '':'' @ pwd connInfo @ '':'' @ src_db connInfo @ '':''
                       @ dst_db connInfo @ '':'' @ table connInfo)\<rparr>))"

text \<open>
  \<^verbatim>\<open>synchdb_start_engine_bgw\<close>. The seven pointers are fetched first; for a pointer
  that \<^verbatim>\<open>PG_GETARG_TEXT_PP\<close> cannot have returned the macros below have no defined
  result. The checks follow in the order of the source, each on
  \<^verbatim>\<open>VARSIZE(t) - VARHDRSZ == 0\<close>.
\<close>

definition synchdb_start_engine_bgw :: "postmaster \<Rightarrow> varlena_ptr \<Rightarrow> 32 word \<Rightarrow> varlena_ptr
    \<Rightarrow> varlena_ptr \<Rightarrow> varlena_ptr \<Rightarrow> varlena_ptr \<Rightarrow> varlena_ptr \<Rightarrow> varlena_ptr
    \<Rightarrow> err + int \<times> ConnectionInfo \<times> BackgroundWorker" where
  "synchdb_start_engine_bgw pm hostname_text port_arg user_text pwd_text src_db_text dst_db_text
       table_text connector_text =
     (if \<not> (detoasted_packed hostname_text \<and> detoasted_packed user_text
             \<and> detoasted_packed pwd_text \<and> detoasted_packed src_db_text
             \<and> detoasted_packed dst_db_text \<and> detoasted_packed table_text
             \<and> detoasted_packed connector_text) then
        Inl (Undefined_behaviour ''an argument is not a varlena that PG_GETARG_TEXT_PP returns'')
      else if VARSIZE_minus_VARHDRSZ hostname_text = 0 then
        Inl (Ereport ERRCODE_INVALID_PARAMETER_VALUE ''hostname cannot be empty'')
      else if port_arg = 0 \<or> port_arg > 65535 then
        Inl (Ereport ERRCODE_INVALID_PARAMETER_VALUE ''invalid port number'')
      else if VARSIZE_minus_VARHDRSZ user_text = 0 then
        Inl (Ereport ERRCODE_INVALID_PARAMETER_VALUE ''username cannot be empty'')
      else if VARSIZE_minus_VARHDRSZ pwd_text = 0 then
        Inl (Ereport ERRCODE_INVALID_PARAMETER_VALUE ''password cannot be empty'')
      else if VARSIZE_minus_VARHDRSZ dst_db_text = 0 then
        Inl (Ereport ERRCODE_INVALID_PARAMETER_VALUE ''destination database cannot be empty'')
      else if VARSIZE_minus_VARHDRSZ connector_text = 0 then
        Inl (Ereport ERRCODE_INVALID_PARAMETER_VALUE ''connector type cannot be empty'')
      else
        (let connInfo = \<lparr>hostname = text_to_cstring hostname_text, port = port_arg,
                         user = text_to_cstring user_text,
                         pwd = text_to_cstring pwd_text,
                         src_db = (if VARSIZE_minus_VARHDRSZ src_db_text = 0 then ''null''
                                   else text_to_cstring src_db_text),
                         dst_db = text_to_cstring dst_db_text,
                         table = (if VARSIZE_minus_VARHDRSZ table_text = 0 then ''null''
                                  else text_to_cstring table_text)\<rparr>;
             worker = \<lparr>bgw_library_name = ''synchdb'', bgw_function_name = ''synchdb_engine_main'',
                       bgw_main_arg = TYPE_UNDEF, bgw_name = [], bgw_type = [], bgw_extra = []\<rparr>
         in
         case prepare_bgw worker connInfo (text_to_cstring connector_text) of
           Inl e \<Rightarrow> Inl e
         | Inr worker' \<Rightarrow>
             if \<not> registered pm then
               Inl (Ereport ERRCODE_INSUFFICIENT_RESOURCES ''could not register background process'')
             else if \<not> started pm then
               Inl (Ereport ERRCODE_INSUFFICIENT_RESOURCES ''could not start background process'')
             else Inr (0, connInfo, worker')))"

text \<open>The rejection the claim speaks of: an error report with the invalid-parameter code.\<close>

definition is_invalid_parameter :: "err + 'a \<Rightarrow> bool" where
  "is_invalid_parameter res =
     (case res of
        Inl (Ereport code msg) \<Rightarrow> code = ERRCODE_INVALID_PARAMETER_VALUE
      | _ \<Rightarrow> False)"

text \<open>
  The two ways a text value lies in memory: with the four-byte header (a constant of a
  query, the result of a function) and with the one-byte header (a short value read from
  a table column). \<open>at_ptr\<close> is a pointer to the given bytes, followed by zero bytes.
\<close>

definition varlena_4b :: "string \<Rightarrow> string" where
  "varlena_4b d = (let h = (length d + 4) * 4 in
     [char_of h, char_of (h div 256), char_of (h div 65536), char_of (h div 16777216)] @ d)"

definition varlena_1b :: "string \<Rightarrow> string" where
  "varlena_1b d = char_of ((length d + 1) * 2 + 1) # d"

definition at_ptr :: "string \<Rightarrow> varlena_ptr" where
  "at_ptr bs = (\<lambda>i. if i < length bs then bs ! i else CHR 0x00)"

section \<open>Inputs of the end-to-end scenarios\<close>

text \<open>
  A converter as \<^verbatim>\<open>fc_initFormatConverter\<close> leaves it when no rule file is loaded:
  the default type tables and no table of object names.
\<close>

definition no_rules :: converter where
  "no_rules = \<lparr>mysqlDatatypeHash = init_mysql, sqlserverDatatypeHash = init_sqlserver,
                objectMappingHash = None\<rparr>"

text \<open>
  The MySQL create event of scenario 1, each column given by the keys the event carries.
\<close>

definition orders_event :: DBZ_DDL where
  "orders_event = \<lparr>
     ddl_id = ''inv.orders'',
     ddl_type = ''CREATE'',
     ddl_primaryKeyColumnNames = JArray [JString ''order_number''],
     ddl_columns = [
       parse_column [(''name'', ''order_number''), (''typeName'', ''INT''), (''optional'', ''false''),
                     (''autoIncremented'', ''true''), (''position'', ''1'')],
       parse_column [(''name'', ''quantity''), (''typeName'', ''INT''), (''optional'', ''false''),
                     (''position'', ''2'')],
       parse_column [(''name'', ''product''), (''typeName'', ''VARCHAR''), (''length'', ''64''),
                     (''optional'', ''true''), (''position'', ''3'')]]\<rparr>"

text \<open>
  A decoder environment with no rule file and the time zone UTC. The text of
  \<^verbatim>\<open>%g\<close> is not used by the inputs below and is left empty.
\<close>

definition plain_env :: decoder_env where
  "plain_env = \<lparr>snprintf_g = (\<lambda>v s. []), mktime_epoch = 0, transformExpressionHash = None,
     ra_transformDataExpression = (\<lambda>d w s e. None), json_field = (\<lambda>j k. None)\<rparr>"

definition column_value :: "string \<Rightarrow> Oid \<Rightarrow> int \<Rightarrow> int \<Rightarrow> TimeRep \<Rightarrow> DBZ_DML_COLUMN_VALUE" where
  "column_value raw ty tm sc tr = \<lparr>dml_name = ''c'', dml_remoteColumnName = ''c'',
     dml_value = Some raw, dml_datatype = ty, dml_typemod = tm, dml_position = 1,
     dml_scale = sc, dml_timerep = tr\<rparr>"

text \<open>
  The encoding the round trip of the specification speaks of: the shortest big-endian
  two's-complement form of an integer (one to sixteen bytes), in base64; and the decimal
  text its words describe, the point placed \<open>s\<close> digits from the right with zeroes
  inserted where the integer has too few digits.
\<close>

definition fits_width :: "int \<Rightarrow> nat \<Rightarrow> bool" where
  "fits_width v k = (- (2 ^ (8 * k - 1)) \<le> v \<and> v < 2 ^ (8 * k - 1))"

definition width_bytes :: "nat \<Rightarrow> int \<Rightarrow> byte list" where
  "width_bytes k v = map (\<lambda>i. word_of_int ((v mod 2 ^ (8 * k)) div 2 ^ (8 * (k - 1 - i)))) [0..<k]"

definition twos_complement_bytes :: "int \<Rightarrow> byte list" where
  "twos_complement_bytes v =
     (case find (fits_width v) [1..<17] of None \<Rightarrow> [] | Some k \<Rightarrow> width_bytes k v)"

definition b64_char :: "nat \<Rightarrow> char" where
  "b64_char n = ''ABCDEFGHIJKLMNOPQRSTUVWXYZabcdefghijklmnopqrstuvwxyz0123456789+/'' ! n"

fun b64_encode :: "byte list \<Rightarrow> string" where
  "b64_encode [] = []"
| "b64_encode [a] =
     [b64_char (unat a div 4), b64_char (unat a mod 4 * 16), CHR ''='', CHR ''='']"
| "b64_encode [a, b] =
     [b64_char (unat a div 4), b64_char (unat a mod 4 * 16 + unat b div 16),
      b64_char (unat b mod 16 * 4), CHR ''='']"
| "b64_encode (a # b # c # rest) =
     [b64_char (unat a div 4), b64_char (unat a mod 4 * 16 + unat b div 16),
      b64_char (unat b mod 16 * 4 + unat c div 64), b64_char (unat c mod 64)]
     @ b64_encode rest"

definition spec_decimal :: "int \<Rightarrow> nat \<Rightarrow> string" where
  "spec_decimal v s =
     (let ds = dec_digits (nat \<bar>v\<bar>);
          padded = replicate (s + 1 - length ds) CHR ''0'' @ ds;
          body = (if s = 0 then ds
                  else take (length padded - s) padded @ ''.'' @ drop (length padded - s) padded)
      in (if v < 0 then ''-'' else []) @ body)"

text \<open>The insert event of scenario 2, with the column types of the table of scenario 1.\<close>

definition orders_insert :: DBZ_DML where
  "orders_insert = \<lparr>
     dbz_op = CHR ''c'',
     dbz_tableoid = 16384,
     dbz_remoteObjectId = ''inv.orders'',
     dbz_mappedObjectId = ''inv.orders'',
     dbz_columnValuesBefore = [],
     dbz_columnValuesAfter = [
       \<lparr>dml_name = ''order_number'', dml_remoteColumnName = ''order_number'',
        dml_value = Some ''10001'', dml_datatype = INT4OID, dml_typemod = - 1, dml_position = 1,
        dml_scale = 0, dml_timerep = TIME_UNDEF\<rparr>,
       \<lparr>dml_name = ''quantity'', dml_remoteColumnName = ''quantity'',
        dml_value = Some ''2'', dml_datatype = INT4OID, dml_typemod = - 1, dml_position = 2,
        dml_scale = 0, dml_timerep = TIME_UNDEF\<rparr>,
       \<lparr>dml_name = ''product'', dml_remoteColumnName = ''product'',
        dml_value = Some ''widget'', dml_datatype = VARCHAROID, dml_typemod = 68, dml_position = 3,
        dml_scale = 0, dml_timerep = TIME_UNDEF\<rparr>]\<rparr>"

text \<open>
  The integer a list of bytes stands for, read as big-endian two's complement of any length.
\<close>

definition be_value :: "byte list \<Rightarrow> nat" where
  "be_value bs = foldl (\<lambda>n b. n * 256 + unat b) 0 bs"

definition twos_complement_value :: "byte list \<Rightarrow> int" where
  "twos_complement_value bs =
     (case bs of
        [] \<Rightarrow> 0
      | b # rest \<Rightarrow> if b AND 0x80 = 0 then int (be_value bs)
                    else int (be_value bs) - 2 ^ (8 * length bs))"

text \<open>
  Scenario 5: the table holds one order, numbered 10002, and an update arrives for
  order 10001. The input functions keep the text, the relation has a primary key on its
  first attribute, and the index lookup compares that attribute.
\<close>

definition key_lookup :: "Relation \<Rightarrow> HeapTuple \<Rightarrow> nat option" where
  "key_lookup r slot = (if take 1 slot \<in> set (map (take 1) (rel_rows r)) then Some 0 else None)"

definition miss_executor :: executor where
  "miss_executor = \<lparr>
     OidInputFunctionCall = (\<lambda>ty s m. Inr s),
     GetRelationIdentityOrPK = (\<lambda>r. True),
     RelationFindReplTupleByIndex = key_lookup,
     RelationFindReplTupleSeq = (\<lambda>r slot. None),
     ExecSimpleRelationInsert = (\<lambda>r slot. Inr r),
     ExecSimpleRelationUpdate = (\<lambda>r k slot. Inr r),
     ExecSimpleRelationDelete = (\<lambda>r k. Inr r),
     SPI_connect = 1,
     SPI_exec = (\<lambda>q r. Inr (9, r)),
     SPI_finish = 2\<rparr>"

definition miss_info :: ConnectorInfo where
  "miss_info = \<lparr>state = STATE_CONVERTING, req = empty_request, srcdb = ''inv''\<rparr>"

definition miss_world :: apply_world where
  "miss_world = \<lparr>
     aw = \<lparr>sdb_state = Some \<lparr>mysqlinfo = miss_info, oracleinfo = miss_info,
                                 sqlserverinfo = miss_info\<rparr>,
            trace = []\<rparr>,
     rel = \<lparr>rel_oid = 16384, rel_atttypmod = [- 1, - 1, 68],
            rel_rows = [[Some ''10002'', Some ''5'', Some ''gadget'']]\<rparr>\<rparr>"

definition miss_update :: PG_DML where
  "miss_update = \<lparr>
     pg_op = CHR ''u'', pg_tableoid = 16384, pg_dmlquery = [],
     pg_columnValuesBefore = [
       \<lparr>pg_value = ''10001'', pg_datatype = INT4OID, pg_position = 1\<rparr>,
       \<lparr>pg_value = ''2'', pg_datatype = INT4OID, pg_position = 2\<rparr>,
       \<lparr>pg_value = ''widget'', pg_datatype = VARCHAROID, pg_position = 3\<rparr>],
     pg_columnValuesAfter = [
       \<lparr>pg_value = ''10001'', pg_datatype = INT4OID, pg_position = 1\<rparr>,
       \<lparr>pg_value = ''3'', pg_datatype = INT4OID, pg_position = 2\<rparr>,
       \<lparr>pg_value = ''widget'', pg_datatype = VARCHAROID, pg_position = 3\<rparr>]\<rparr>"

text \<open>
  The digits of a bit value in the words of the specification: the bytes in reverse
  order, eight binary digits for each, written without leading zeros (a single zero when
  there is no other digit), then zeros on the left up to \<open>typemod\<close> digits.
\<close>

definition binary_digits :: "byte list \<Rightarrow> string" where
  "binary_digits bs =
     (let ds = dropWhile (\<lambda>c. c = CHR ''0'') (concat (map byte_to_binary (rev bs)))
      in if ds = [] then ''0'' else ds)"


section \<open>Verified properties\<close>

subsection \<open>Evaluation of the library functions on literals\<close>

lemma dec_digits_small: "n < 10 \<Longrightarrow> dec_digits n = [digit_char n]"
  by (subst dec_digits.simps) simp

lemma dec_digits_large:
  "\<not> n < 10 \<Longrightarrow> dec_digits n = dec_digits (n div 10) @ [digit_char (n mod 10)]"
  by (subst dec_digits.simps) simp

lemma replicate_numeral: "replicate (numeral k) x = x # replicate (pred_numeral k) x"
  by (simp add: numeral_eq_Suc)

lemmas dec_eval = dec_digits_small dec_digits_large digit_char_def printf_ld_def printf_0d_def
  replicate_numeral

lemma tolower_NULL: "map c_tolower ''NULL'' = ''null''"
  by code_simp

lemmas b64_eval = pg_b64_decode_def pg_b64_dec_len_def b64lookup_def b64_flush_def b64_put_def

lemma no_transform_plain [simp]:
  "apply_transform plain_env colval remoteObjectId out = Inr out"
  by (simp add: apply_transform_def transform_data_expression_def plain_env_def)

subsection \<open>The request handler of the connector supervisor\<close>

lemma get_put_info: "get_info t s = Some i0 \<Longrightarrow> get_info t (put_info t i s) = Some i"
  by (cases t) (simp_all add: get_info_def put_info_def)


lemma info_of_set:
  "info_of t w = Some i \<Longrightarrow>
   set_shm_connector_state t st w =
     w\<lparr>sdb_state := Some (put_info t (i\<lparr>state := st\<rparr>) (the (sdb_state w))),
       trace := trace w @ [Set_state t st]\<rparr>"
  by (cases "sdb_state w")
     (simp_all add: info_of_def set_shm_connector_state_def emit_def)

lemma info_of_emit [simp]: "info_of t (emit e w) = info_of t w"
  by (simp add: info_of_def emit_def)

lemma trace_emit [simp]: "trace (emit e w) = trace w @ [e]"
  by (simp add: emit_def)


lemma info_of_after_set:
  assumes "info_of t w = Some i"
  shows "info_of t (set_shm_connector_state t st w) = Some (i\<lparr>state := st\<rparr>)"
    and "trace (set_shm_connector_state t st w) = trace w @ [Set_state t st]"
  using assms
  by (auto simp: info_of_set info_of_def get_put_info split: option.splits)
















subsection \<open>Argument checks of \<^verbatim>\<open>synchdb_start_engine_bgw\<close>\<close>

text \<open>
  \<^verbatim>\<open>VARSIZE(t) - VARHDRSZ == 0\<close> holds exactly when the four bytes at the pointer, read
  as a little-endian word, lie between 16 and 19.
\<close>

lemma of_char_lt: "(of_char c :: nat) < 256"
  by simp

lemma va_header_lt: "va_header p < 4294967296"
  using of_char_lt [of "p 0"] of_char_lt [of "p 1"] of_char_lt [of "p 2"] of_char_lt [of "p 3"]
  unfolding va_header_def by linarith

lemma VARSIZE_eq: "VARSIZE p = va_header p div 4"
proof -
  have "va_header p div 4 < 1073741824" using va_header_lt [of p] by linarith
  then show ?thesis by (simp add: VARSIZE_def VARSIZE_4B_def)
qed

lemma header_only_iff: "VARSIZE_minus_VARHDRSZ p = 0 \<longleftrightarrow> VARSIZE p = 4"
proof (cases "4 \<le> VARSIZE p")
  case True
  have lt: "VARSIZE p - 4 < 4294967296"
    using va_header_lt [of p] unfolding VARSIZE_eq by linarith
  have eq: "VARSIZE p + 4294967296 - 4 = (VARSIZE p - 4) + 4294967296" using True by simp
  have "VARSIZE_minus_VARHDRSZ p = (VARSIZE p + 4294967296 - 4) mod 4294967296"
    by (simp add: VARSIZE_minus_VARHDRSZ_def VARHDRSZ_def)
  also have "\<dots> = (VARSIZE p - 4 + 4294967296) mod 4294967296"
    by (simp only: eq)
  also have "\<dots> = (VARSIZE p - 4) mod 4294967296"
    by (rule mod_add_self2)
  finally have "VARSIZE_minus_VARHDRSZ p = VARSIZE p - 4"
    using lt by (simp only: mod_less)
  then show ?thesis using True by linarith
next
  case False
  then have "VARSIZE p + 4294967296 - 4 < 4294967296" "0 < VARSIZE p + 4294967296 - 4"
    by linarith+
  then have "VARSIZE_minus_VARHDRSZ p \<noteq> 0"
    by (simp add: VARSIZE_minus_VARHDRSZ_def VARHDRSZ_def)
  then show ?thesis using False by linarith
qed

lemma header_only_range:
  "VARSIZE_minus_VARHDRSZ p = 0 \<longleftrightarrow> 16 \<le> va_header p \<and> va_header p < 20"
  unfolding header_only_iff VARSIZE_eq by linarith

lemma short_empty_not_seen:
  assumes "(of_char (p 0) :: nat) = 3"
  shows "VARSIZE_minus_VARHDRSZ p \<noteq> 0"
proof -
  define k :: nat where "k = of_char (p 1) + 256 * of_char (p 2) + 65536 * of_char (p 3)"
  have h: "va_header p = 3 + 256 * k"
    using assms by (simp add: va_header_def k_def)
  show ?thesis unfolding header_only_range h by arith
qed

lemma of_char_nonzero: "c \<noteq> CHR 0x00 \<Longrightarrow> (of_char c :: nat) \<noteq> 0"
proof -
  assume c: "c \<noteq> CHR 0x00"
  have "(of_char c :: nat) = of_char (CHR 0x00) \<longleftrightarrow> c = CHR 0x00" by (rule of_char_eq_iff)
  then show ?thesis using c by simp
qed

lemma nonzero_data_not_seen:
  assumes "p 1 \<noteq> CHR 0x00"
  shows "VARSIZE_minus_VARHDRSZ p \<noteq> 0"
proof -
  define k :: nat where "k = of_char (p 0) + 65536 * of_char (p 2) + 16777216 * of_char (p 3)"
  have h: "va_header p = k + 256 * of_char (p 1)"
    by (simp add: va_header_def k_def)
  have b: "0 < (of_char (p 1) :: nat)" using of_char_nonzero [OF assms] by simp
  show ?thesis unfolding header_only_range h using b by arith
qed

lemma short_header_byte:
  "length d \<le> 126 \<Longrightarrow> (of_char (at_ptr (varlena_1b d) 0) :: nat) = 2 * length d + 3"
  by (simp add: at_ptr_def varlena_1b_def)

lemma VARATT_IS_1B_short: "length d \<le> 126 \<Longrightarrow> VARATT_IS_1B (at_ptr (varlena_1b d))"
  by (simp add: VARATT_IS_1B_def short_header_byte)

lemma VARSIZE_1B_short: "length d \<le> 126 \<Longrightarrow> VARSIZE_1B (at_ptr (varlena_1b d)) = length d + 1"
  by (simp add: VARSIZE_1B_def short_header_byte)

lemma detoasted_short: "length d \<le> 126 \<Longrightarrow> detoasted_packed (at_ptr (varlena_1b d))"
  by (simp add: detoasted_packed_def VARATT_IS_1B_short VARATT_IS_1B_E_def short_header_byte)

lemma map_at_ptr_tail: "map (at_ptr (c # d)) [1 ..< 1 + length d] = d"
proof -
  have "[1 ..< 1 + length d] = map Suc [0 ..< length d]"
    by (simp add: map_Suc_upt)
  then have "map (at_ptr (c # d)) [1 ..< 1 + length d] = map (\<lambda>i. d ! i) [0 ..< length d]"
    by (simp add: comp_def at_ptr_def)
  then show ?thesis by (simp add: map_nth)
qed

lemma text_to_cstring_short:
  assumes "length d \<le> 126"
  shows "text_to_cstring (at_ptr (varlena_1b d)) = d"
proof -
  have "text_to_cstring (at_ptr (varlena_1b d))
      = map (at_ptr (varlena_1b d)) [1 ..< 1 + length d]"
    using assms
    by (simp add: text_to_cstring_def VARDATA_ANY_def VARSIZE_ANY_EXHDR_def VARATT_IS_1B_short
          VARSIZE_1B_short VARHDRSZ_SHORT_def)
  also have "\<dots> = d"
    unfolding varlena_1b_def by (rule map_at_ptr_tail)
  finally show ?thesis .
qed

lemma short_empty_at: "VARSIZE_minus_VARHDRSZ (at_ptr (varlena_1b [])) \<noteq> 0"
  by (rule short_empty_not_seen) (simp add: short_header_byte)

lemma short_nonzero_at:
  "c \<noteq> CHR 0x00 \<Longrightarrow> VARSIZE_minus_VARHDRSZ (at_ptr (varlena_1b (c # d))) \<noteq> 0"
  by (rule nonzero_data_not_seen) (simp add: at_ptr_def varlena_1b_def)


lemma le32_round_trip:
  assumes "h < 4294967296"
  shows "h mod 256 + 256 * (h div 256 mod 256) + 65536 * (h div 65536 mod 256)
         + 16777216 * (h div 16777216 mod 256) = (h::nat)"
proof -
  define x1 where "x1 = h div 256"
  define x2 where "x2 = x1 div 256"
  define x3 where "x3 = x2 div 256"
  have d2: "h div 65536 = x2" unfolding x2_def x1_def by (simp add: div_mult2_eq)
  have d3: "h div 16777216 = x3" unfolding x3_def x2_def x1_def by (simp add: div_mult2_eq)
  have s3: "x3 < 256" using assms unfolding d3 [symmetric] by simp
  have e0: "h = h mod 256 + 256 * x1" unfolding x1_def by simp
  have e1: "x1 = x1 mod 256 + 256 * x2" unfolding x2_def by simp
  have e2: "x2 = x2 mod 256 + 256 * x3" unfolding x3_def by simp
  have e3: "x3 mod 256 = x3" using s3 by simp
  show ?thesis
    unfolding d2 d3 e3 x1_def [symmetric] using e0 e1 e2 by linarith
qed

lemma va_header_le32:
  assumes "h < 4294967296"
  shows "va_header (at_ptr ([char_of h, char_of (h div 256), char_of (h div 65536),
            char_of (h div 16777216)] @ d)) = (h::nat)"
proof -
  have "va_header (at_ptr ([char_of h, char_of (h div 256), char_of (h div 65536),
            char_of (h div 16777216)] @ d))
      = h mod 256 + 256 * (h div 256 mod 256) + 65536 * (h div 65536 mod 256)
         + 16777216 * (h div 16777216 mod 256)"
    by (simp add: va_header_def at_ptr_def)
  then show ?thesis by (simp only: le32_round_trip [OF assms])
qed

lemma long_header:
  assumes "length d + 4 < 1073741824"
  shows "va_header (at_ptr (varlena_4b d)) = (length d + 4) * 4"
proof -
  have "(length d + 4) * 4 < 4294967296" using assms by simp
  then show ?thesis
    unfolding varlena_4b_def Let_def by (rule va_header_le32)
qed

lemma long_header_byte:
  "(of_char (at_ptr (varlena_4b d) 0) :: nat) = ((length d + 4) * 4) mod 256"
  unfolding varlena_4b_def Let_def by (simp add: at_ptr_def)

lemma VARSIZE_long:
  "length d + 4 < 1073741824 \<Longrightarrow> VARSIZE (at_ptr (varlena_4b d)) = length d + 4"
  by (simp add: VARSIZE_eq long_header)

lemma not_1B_long: "\<not> VARATT_IS_1B (at_ptr (varlena_4b d))"
proof -
  have "(length d + 4) * 4 mod 256 mod 2 = (length d + 4) * 4 mod 2"
    by (rule mod_mod_cancel) simp
  then show ?thesis
    unfolding VARATT_IS_1B_def long_header_byte by simp
qed

lemma is_4B_U_long: "VARATT_IS_4B_U (at_ptr (varlena_4b d))"
proof -
  have "(length d + 4) * 4 mod 256 mod 4 = (length d + 4) * 4 mod 4"
    by (rule mod_mod_cancel) simp
  then show ?thesis
    unfolding VARATT_IS_4B_U_def long_header_byte by simp
qed

lemma detoasted_long:
  "length d + 4 < 1073741824 \<Longrightarrow> detoasted_packed (at_ptr (varlena_4b d))"
  using VARSIZE_long [of d]
  by (simp add: detoasted_packed_def not_1B_long is_4B_U_long VARSIZE_def VARHDRSZ_def)

lemma long_seen:
  "length d + 4 < 1073741824 \<Longrightarrow> VARSIZE_minus_VARHDRSZ (at_ptr (varlena_4b d)) = 0 \<longleftrightarrow> d = []"
  by (simp add: header_only_iff VARSIZE_long)

lemma map_at_ptr_drop4: "map (at_ptr (a # b # c # e # d)) [4 ..< 4 + length d] = d"
proof -
  have "[4 ..< 4 + length d] = map (\<lambda>i. i + 4) [0 ..< length d]"
    using map_add_upt [of 4 "length d"] by (simp add: add.commute)
  then have "map (at_ptr (a # b # c # e # d)) [4 ..< 4 + length d]
      = map (\<lambda>i. d ! i) [0 ..< length d]"
    by (simp add: comp_def at_ptr_def)
  then show ?thesis by (simp add: map_nth)
qed

lemma text_to_cstring_long:
  assumes "length d + 4 < 1073741824"
  shows "text_to_cstring (at_ptr (varlena_4b d)) = d"
proof -
  have "VARSIZE_4B (at_ptr (varlena_4b d)) = length d + 4"
    using VARSIZE_long [OF assms] by (simp add: VARSIZE_def)
  then have "text_to_cstring (at_ptr (varlena_4b d))
      = map (at_ptr (varlena_4b d)) [4 ..< 4 + length d]"
    by (simp add: text_to_cstring_def VARDATA_ANY_def VARSIZE_ANY_EXHDR_def not_1B_long
          VARHDRSZ_def)
  also have "\<dots> = d"
    unfolding varlena_4b_def Let_def append_Cons append_Nil by (rule map_at_ptr_drop4)
  finally show ?thesis .
qed

text \<open>
  With four-byte headers the checks are the emptiness tests they are meant to be.
\<close>

lemma prepare_bgw_not_invalid: "\<not> is_invalid_parameter (prepare_bgw w ci c)"
  by (simp add: prepare_bgw_def is_invalid_parameter_def Let_def)

lemma start_long:
  assumes "length h + 4 < 1073741824" "length u + 4 < 1073741824" "length pw + 4 < 1073741824"
    "length s + 4 < 1073741824" "length d + 4 < 1073741824" "length tb + 4 < 1073741824"
    "length c + 4 < 1073741824"
  shows "synchdb_start_engine_bgw pm (at_ptr (varlena_4b h)) p (at_ptr (varlena_4b u))
           (at_ptr (varlena_4b pw)) (at_ptr (varlena_4b s)) (at_ptr (varlena_4b d))
           (at_ptr (varlena_4b tb)) (at_ptr (varlena_4b c)) =
     (if h = [] then
        Inl (Ereport ERRCODE_INVALID_PARAMETER_VALUE ''hostname cannot be empty'')
      else if p = 0 \<or> p > 65535 then
        Inl (Ereport ERRCODE_INVALID_PARAMETER_VALUE ''invalid port number'')
      else if u = [] then
        Inl (Ereport ERRCODE_INVALID_PARAMETER_VALUE ''username cannot be empty'')
      else if pw = [] then
        Inl (Ereport ERRCODE_INVALID_PARAMETER_VALUE ''password cannot be empty'')
      else if d = [] then
        Inl (Ereport ERRCODE_INVALID_PARAMETER_VALUE ''destination database cannot be empty'')
      else if c = [] then
        Inl (Ereport ERRCODE_INVALID_PARAMETER_VALUE ''connector type cannot be empty'')
      else
        (case prepare_bgw
                \<lparr>bgw_library_name = ''synchdb'', bgw_function_name = ''synchdb_engine_main'',
                 bgw_main_arg = TYPE_UNDEF, bgw_name = [], bgw_type = [], bgw_extra = []\<rparr>
                \<lparr>hostname = h, port = p, user = u, pwd = pw,
                 src_db = (if s = [] then ''null'' else s), dst_db = d,
                 table = (if tb = [] then ''null'' else tb)\<rparr> c of
           Inl e \<Rightarrow> Inl e
         | Inr worker' \<Rightarrow>
             if \<not> registered pm then
               Inl (Ereport ERRCODE_INSUFFICIENT_RESOURCES ''could not register background process'')
             else if \<not> started pm then
               Inl (Ereport ERRCODE_INSUFFICIENT_RESOURCES ''could not start background process'')
             else Inr (0, \<lparr>hostname = h, port = p, user = u, pwd = pw,
                            src_db = (if s = [] then ''null'' else s), dst_db = d,
                            table = (if tb = [] then ''null'' else tb)\<rparr>, worker')))"
  unfolding synchdb_start_engine_bgw_def Let_def
  by (simp only: detoasted_long [OF assms(1)] detoasted_long [OF assms(2)]
        detoasted_long [OF assms(3)] detoasted_long [OF assms(4)] detoasted_long [OF assms(5)]
        detoasted_long [OF assms(6)] detoasted_long [OF assms(7)]
        long_seen [OF assms(1)] long_seen [OF assms(2)] long_seen [OF assms(3)]
        long_seen [OF assms(4)] long_seen [OF assms(5)] long_seen [OF assms(6)]
        long_seen [OF assms(7)]
        text_to_cstring_long [OF assms(1)] text_to_cstring_long [OF assms(2)]
        text_to_cstring_long [OF assms(3)] text_to_cstring_long [OF assms(4)]
        text_to_cstring_long [OF assms(5)] text_to_cstring_long [OF assms(6)]
        text_to_cstring_long [OF assms(7)] simp_thms if_True if_False)

lemma long_header_checks:
  assumes "length h + 4 < 1073741824" "length u + 4 < 1073741824" "length pw + 4 < 1073741824"
    "length s + 4 < 1073741824" "length d + 4 < 1073741824" "length tb + 4 < 1073741824"
    "length c + 4 < 1073741824"
  shows "is_invalid_parameter
           (synchdb_start_engine_bgw pm (at_ptr (varlena_4b h)) p (at_ptr (varlena_4b u))
              (at_ptr (varlena_4b pw)) (at_ptr (varlena_4b s)) (at_ptr (varlena_4b d))
              (at_ptr (varlena_4b tb)) (at_ptr (varlena_4b c)))
         = (h = [] \<or> p = 0 \<or> p > 65535 \<or> u = [] \<or> pw = [] \<or> d = [] \<or> c = [])"
proof (cases "h = [] \<or> p = 0 \<or> p > 65535 \<or> u = [] \<or> pw = [] \<or> d = [] \<or> c = []")
  case True
  then show ?thesis
    unfolding start_long [OF assms] is_invalid_parameter_def
    by (auto simp del: One_nat_def)
next
  case False
  define ci where "ci = \<lparr>hostname = h, port = p, user = u, pwd = pw,
                 src_db = (if s = [] then ''null'' else s), dst_db = d,
                 table = (if tb = [] then ''null'' else tb)\<rparr>"
  define w where "w = \<lparr>bgw_library_name = ''synchdb'', bgw_function_name = ''synchdb_engine_main'',
                       bgw_main_arg = TYPE_UNDEF, bgw_name = [], bgw_type = [], bgw_extra = []\<rparr>"
  have a: "h \<noteq> []" "\<not> (p = 0 \<or> p > 65535)" "u \<noteq> []" "pw \<noteq> []" "d \<noteq> []" "c \<noteq> []"
    using False by blast+
  have eq: "synchdb_start_engine_bgw pm (at_ptr (varlena_4b h)) p (at_ptr (varlena_4b u))
              (at_ptr (varlena_4b pw)) (at_ptr (varlena_4b s)) (at_ptr (varlena_4b d))
              (at_ptr (varlena_4b tb)) (at_ptr (varlena_4b c)) =
     (case prepare_bgw w ci c of
           Inl e \<Rightarrow> Inl e
         | Inr worker' \<Rightarrow>
             if \<not> registered pm then
               Inl (Ereport ERRCODE_INSUFFICIENT_RESOURCES ''could not register background process'')
             else if \<not> started pm then
               Inl (Ereport ERRCODE_INSUFFICIENT_RESOURCES ''could not start background process'')
             else Inr (0, ci, worker'))"
    unfolding start_long [OF assms] ci_def w_def using a by (simp only: if_False)
  have "\<not> is_invalid_parameter
           (synchdb_start_engine_bgw pm (at_ptr (varlena_4b h)) p (at_ptr (varlena_4b u))
              (at_ptr (varlena_4b pw)) (at_ptr (varlena_4b s)) (at_ptr (varlena_4b d))
              (at_ptr (varlena_4b tb)) (at_ptr (varlena_4b c)))"
  proof (cases "prepare_bgw w ci c")
    case (Inl e)
    then show ?thesis
      using prepare_bgw_not_invalid [of w ci c]
      by (simp add: eq is_invalid_parameter_def)
  next
    case (Inr w')
    then show ?thesis
      by (simp add: eq is_invalid_parameter_def)
  qed
  then show ?thesis using False by simp
qed

lemma long_header_null_replacement:
  "synchdb_start_engine_bgw \<lparr>registered = True, started = True\<rparr>
       (at_ptr (varlena_4b ''127.0.0.1'')) 3306 (at_ptr (varlena_4b ''u''))
       (at_ptr (varlena_4b ''p'')) (at_ptr (varlena_4b [])) (at_ptr (varlena_4b ''postgres''))
       (at_ptr (varlena_4b [])) (at_ptr (varlena_4b ''mysql''))
   = Inr (0, \<lparr>hostname = ''127.0.0.1'', port = 3306, user = ''u'', pwd = ''p'',
                 src_db = ''null'', dst_db = ''postgres'', table = ''null''\<rparr>,
            \<lparr>bgw_library_name = ''synchdb'', bgw_function_name = ''synchdb_engine_main'',
             bgw_main_arg = TYPE_MYSQL,
             bgw_name = ''synchdb engine: mysql@127.0.0.1:3306 -> postgres'',
             bgw_type = ''synchdb engine: mysql'',
             bgw_extra = ''127.0.0.1:3306:u:p:null:postgres:null''\<rparr>)"
  by (subst start_long)
     (simp_all add: prepare_bgw_def fc_get_connector_type_def strcasecmp_eq_def c_tolower_def
        BGW_MAXLEN_def BGW_EXTRALEN_def dec_eval Let_def)

text \<open>
  Claim C9 does not hold of the code for arguments that carry the one-byte header, such
  as short values read from a table column. The row
  \<open>('', 3306, 'u', 'p', '', 'postgres', '', 'mysql')\<close>, passed column by column, has an
  empty host name, an empty source database and an empty table list. The header byte of
  an empty packed text is \<open>0x03\<close>, which \<^verbatim>\<open>VARSIZE\<close> never reads as the size 4, so the
  call is not rejected for its empty host name and the worker is launched with empty
  strings, not with \<open>null\<close>, for the source database and the table list.
\<close>

theorem short_header_empty_arguments:
  "synchdb_start_engine_bgw \<lparr>registered = True, started = True\<rparr>
       (at_ptr (varlena_1b [])) 3306 (at_ptr (varlena_1b ''u'')) (at_ptr (varlena_1b ''p''))
       (at_ptr (varlena_1b [])) (at_ptr (varlena_1b ''postgres'')) (at_ptr (varlena_1b []))
       (at_ptr (varlena_1b ''mysql''))
   = Inr (0, \<lparr>hostname = [], port = 3306, user = ''u'', pwd = ''p'',
                 src_db = [], dst_db = ''postgres'', table = []\<rparr>,
            \<lparr>bgw_library_name = ''synchdb'', bgw_function_name = ''synchdb_engine_main'',
             bgw_main_arg = TYPE_MYSQL,
             bgw_name = ''synchdb engine: mysql@:3306 -> postgres'',
             bgw_type = ''synchdb engine: mysql'',
             bgw_extra = '':3306:u:p::postgres:''\<rparr>)"
  by (simp add: synchdb_start_engine_bgw_def prepare_bgw_def fc_get_connector_type_def
        strcasecmp_eq_def c_tolower_def BGW_MAXLEN_def BGW_EXTRALEN_def dec_eval Let_def
        detoasted_short text_to_cstring_short short_empty_at short_nonzero_at)

subsection \<open>The create statement of scenario 1\<close>

text \<open>
  Claim C1. With the default MySQL type table and no rule file, the create event of
  scenario 1 is translated to the statement below. It differs from the statement of the
  specification in one space, between \<open>VARCHAR\<close> and \<open>(64)\<close>; with the white space
  removed the two are equal.
\<close>

theorem mysql_create_orders_ddl:
  "ddl_type orders_event = ''CREATE''
   \<and> convert2PGDDL_CREATE no_rules orders_event TYPE_MYSQL
     = Inr ''CREATE SCHEMA IF NOT EXISTS inv; CREATE TABLE IF NOT EXISTS inv.orders ( order_number SERIAL NOT NULL , quantity INT NOT NULL , product VARCHAR (64) , PRIMARY KEY(order_number));''
   \<and> map_sum id strip_whitespace (convert2PGDDL_CREATE no_rules orders_event TYPE_MYSQL)
     = Inr (strip_whitespace ''CREATE SCHEMA IF NOT EXISTS inv; CREATE TABLE IF NOT EXISTS inv.orders ( order_number SERIAL NOT NULL , quantity INT NOT NULL , product VARCHAR(64) , PRIMARY KEY(order_number));'')"
proof -
  have e: "convert2PGDDL_CREATE no_rules orders_event TYPE_MYSQL
     = Inr ''CREATE SCHEMA IF NOT EXISTS inv; CREATE TABLE IF NOT EXISTS inv.orders ( order_number SERIAL NOT NULL , quantity INT NOT NULL , product VARCHAR (64) , PRIMARY KEY(order_number));''"
    by code_simp
  have s: "strip_whitespace ''CREATE SCHEMA IF NOT EXISTS inv; CREATE TABLE IF NOT EXISTS inv.orders ( order_number SERIAL NOT NULL , quantity INT NOT NULL , product VARCHAR (64) , PRIMARY KEY(order_number));''
     = strip_whitespace ''CREATE SCHEMA IF NOT EXISTS inv; CREATE TABLE IF NOT EXISTS inv.orders ( order_number SERIAL NOT NULL , quantity INT NOT NULL , product VARCHAR(64) , PRIMARY KEY(order_number));''"
    by (simp add: strip_whitespace_def c_isspace_def)
  have t: "ddl_type orders_event = ''CREATE''"
    by (simp add: orders_event_def)
  show ?thesis
    unfolding e using s t by simp
qed

subsection \<open>The timestamp of scenario 3\<close>

lemma scenario3_value:
  "processDataByType plain_env
     (column_value ''1707000000000'' TIMESTAMPOID 3 0 TIME_TIMESTAMP) True ''testDB.dbo.t''
   = Inr (Some ([squote] @ ''2024-02-03T22:40:00.000000'' @ [squote]))"
  by code_simp

text \<open>
  Claim C7, as stated, fails: 1707000000000 ms after the epoch is 22:40:00 on
  2024-02-03, and the literal the decoder returns is not the one the claim gives.
\<close>

theorem timestamp_scenario_counterexample:
  "processDataByType plain_env
     (column_value ''1707000000000'' TIMESTAMPOID 3 0 TIME_TIMESTAMP) True ''testDB.dbo.t''
   \<noteq> Inr (Some ([squote] @ ''2024-02-03T23:00:00.000000'' @ [squote]))"
  unfolding scenario3_value by simp

text \<open>
  Claim C7, with its literal amended. Decoding a Timestamp value with raw value
  \<open>1707000000000\<close>, time representation milliseconds since the epoch, and typemod 3
  (quoting requested) produces the literal \<open>'2024-02-03T22:40:00.000000'\<close>, per the
  rule that a timestamp is decomposed into seconds plus fractional units and formatted
  \<open>YYYY-MM-DDTHH:MM:SS.ffffff\<close> with microsecond precision when typemod > 0.
\<close>

theorem timestamp_scenario_literal:
  "processDataByType plain_env
     (column_value ''1707000000000'' TIMESTAMPOID 3 0 TIME_TIMESTAMP) True ''testDB.dbo.t''
   = Inr (Some ([squote] @ ''2024-02-03T22:40:00.000000'' @ [squote]))"
  by (rule scenario3_value)

subsection \<open>Text values with quoting\<close>

lemma widget_not_null: "\<not> strcasecmp_eq ''widget'' ''NULL''"
  by (simp add: strcasecmp_eq_def tolower_NULL c_tolower_def)

text \<open>
  Claim C2 fails where quoting is requested. For the text value \<open>widget\<close> the decoder
  returns no value, although \<^verbatim>\<open>escapeSingleQuote\<close> on the same input gives the quoted
  text the claim describes; without quoting the value is passed through. The insert
  statement of scenario 2 therefore carries \<open>null\<close> in place of \<open>'widget'\<close>.
\<close>

theorem quoted_text_is_dropped:
  "processDataByType plain_env (column_value ''widget'' TEXTOID (- 1) 0 TIME_UNDEF) True ''inv.orders''
     = Inr None
   \<and> escapeSingleQuote ''widget'' True = [squote] @ ''widget'' @ [squote]
   \<and> processDataByType plain_env (column_value ''widget'' TEXTOID (- 1) 0 TIME_UNDEF) False ''inv.orders''
     = Inr (Some ''widget'')
   \<and> map_sum id pg_dmlquery (convert2PGDML plain_env True orders_insert)
     = Inr ''INSERT INTO inv.orders(order_number,quantity,product) VALUES (10001,2,null);''"
proof (intro conjI)
  show "processDataByType plain_env (column_value ''widget'' TEXTOID (- 1) 0 TIME_UNDEF) True ''inv.orders''
     = Inr None"
    by (simp add: processDataByType_def column_value_def widget_not_null decode_by_type_def
          decode_text_def)
  show "escapeSingleQuote ''widget'' True = [squote] @ ''widget'' @ [squote]"
    by (simp add: escapeSingleQuote_def)
  show "processDataByType plain_env (column_value ''widget'' TEXTOID (- 1) 0 TIME_UNDEF) False ''inv.orders''
     = Inr (Some ''widget'')"
    by (simp add: processDataByType_def column_value_def widget_not_null decode_by_type_def
          decode_text_def)
  show "map_sum id pg_dmlquery (convert2PGDML plain_env True orders_insert)
     = Inr ''INSERT INTO inv.orders(order_number,quantity,product) VALUES (10001,2,null);''"
    by code_simp
qed

subsection \<open>A negative number with as many characters as the scale\<close>

lemma encode_minus_12: "b64_encode (twos_complement_bytes (- 12)) = ''9A==''"
  by code_simp

lemma decode_9A: "pg_b64_decode ''9A=='' 3 = Some [0xF4]"
  by (simp add: b64_eval)

lemma derive_F4: "derive_value_from_byte [0xF4, 0, 0, 0] 1 = Inr (- 12)"
  by (simp add: derive_value_from_byte_def)

lemma not_null_9A: "\<not> strcasecmp_eq ''9A=='' ''NULL''"
  by (simp add: strcasecmp_eq_def tolower_NULL c_tolower_def)

text \<open>
  Claim C5 fails for a negative number whose text, sign included, has as many
  characters as the scale. The integer \<open>-12\<close> is encoded as \<open>9A==\<close>; decoded with
  scale 3 it gives \<open>0.-12\<close>, where the decimal text of \<open>-12\<close> with the point three
  digits from the right is \<open>-0.012\<close>.
\<close>

theorem negative_round_trip_breaks:
  "b64_encode (twos_complement_bytes (- 12)) = ''9A==''
   \<and> processDataByType plain_env (column_value ''9A=='' NUMERICOID (- 1) 3 TIME_UNDEF) False ''inv.t''
     = Inr (Some ''0.-12'')
   \<and> spec_decimal (- 12) 3 = ''-0.012''"
proof (intro conjI)
  show "b64_encode (twos_complement_bytes (- 12)) = ''9A==''"
    by (rule encode_minus_12)
  show "processDataByType plain_env (column_value ''9A=='' NUMERICOID (- 1) 3 TIME_UNDEF) False ''inv.t''
     = Inr (Some ''0.-12'')"
    by (simp add: processDataByType_def column_value_def not_null_9A decode_by_type_def
          decode_numeric_def pg_b64_dec_len_def decode_9A derive_F4 dec_eval Let_def
          place_decimal_def)
  show "spec_decimal (- 12) 3 = ''-0.012''"
    by (simp add: spec_decimal_def dec_eval Let_def)
qed

subsection \<open>Empty raw values\<close>





subsection \<open>An update whose row is not found\<close>

lemma info_of_record_event [simp]: "info_of t (aw (record_event e a)) = info_of t (aw a)"
  by (simp add: record_event_def)

lemma rel_record_event [simp]: "rel (record_event e a) = rel a"
  by (simp add: record_event_def)

lemma trace_record_event [simp]: "trace (aw (record_event e a)) = trace (aw a) @ [e]"
  by (simp add: record_event_def)

lemma rel_set_state [simp]: "rel (set_state t st a) = rel a"
  by (simp add: set_state_def)

lemma set_state_info:
  assumes "info_of t (aw a) = Some i"
  shows "info_of t (aw (set_state t st a)) = Some (i\<lparr>state := st\<rparr>)"
    and "trace (aw (set_state t st a)) = trace (aw a) @ [Set_state t st]"
  using info_of_after_set [OF assms] by (simp_all add: set_state_def)

lemma handle_update_miss:
  assumes "rel_oid (rel a) = tableoid"
    and "fill_slot ex (rel_atttypmod (rel a)) colvalbefore = Inr remoteslot"
    and "locate ex (rel a) remoteslot = None"
  shows "synchdb_handle_update ex colvalbefore colvalafter tableoid t a
     = Inr (- 1, record_event CommitTransactionCommand
                   (record_event (Elog WARNING ''tuple to update not found'')
                     (record_event (Elog WARNING (locate_msg ex (rel a)))
                       (record_event StartTransactionCommand a))))"
  using assms by (simp add: synchdb_handle_update_def table_open_def Let_def)

text \<open>
  Claim C8. In tuple mode, for an update whose before-image is built and for which the
  lookup (by the identity or primary-key index when the relation has one, by sequential
  scan otherwise) finds no row, the applier logs \<open>tuple to update not found\<close> and
  returns \<open>-1\<close> without raising: the relation is unchanged, the transaction it
  started is committed, and the event step ends with the connector state \<open>Syncing\<close>.
\<close>

theorem update_miss_is_not_fatal:
  assumes "pg_op p = CHR ''u''"
    and "rel_oid (rel a) = pg_tableoid p"
    and "fill_slot ex (rel_atttypmod (rel a)) (pg_columnValuesBefore p) = Inr remoteslot"
    and "locate ex (rel a) remoteslot = None"
    and "info_of t (aw a) = Some i"
  shows "\<exists>a'. execute_step ex False p t a = Inr (- 1, a')
     \<and> rel a' = rel a
     \<and> map_option state (info_of t (aw a')) = Some STATE_SYNCING
     \<and> applied_events a a' =
         [Set_state t STATE_EXECUTING, StartTransactionCommand,
          Elog WARNING (locate_msg ex (rel a)), Elog WARNING ''tuple to update not found'',
          CommitTransactionCommand,
          Elog WARNING ''failed to execute PG DML change event'', Set_state t STATE_SYNCING]"
proof -
  let ?a3 = "set_state t STATE_EXECUTING a"
  let ?a4 = "record_event CommitTransactionCommand
               (record_event (Elog WARNING ''tuple to update not found'')
                 (record_event (Elog WARNING (locate_msg ex (rel a)))
                   (record_event StartTransactionCommand ?a3)))"
  let ?a5 = "record_event (Elog WARNING ''failed to execute PG DML change event'') ?a4"
  let ?a6 = "set_state t STATE_SYNCING ?a5"
  have i3: "info_of t (aw ?a3) = Some (i\<lparr>state := STATE_EXECUTING\<rparr>)"
    and t3: "trace (aw ?a3) = trace (aw a) @ [Set_state t STATE_EXECUTING]"
    using set_state_info [OF assms(5)] by simp_all
  have u: "synchdb_handle_update ex (pg_columnValuesBefore p) (pg_columnValuesAfter p)
             (pg_tableoid p) t ?a3 = Inr (- 1, ?a4)"
    using handle_update_miss [of ?a3 "pg_tableoid p" ex "pg_columnValuesBefore p" remoteslot
            "pg_columnValuesAfter p" t] assms(2,3,4)
    by simp
  have r: "ra_executePGDML ex False (Some p) t ?a3 = Inr (- 1, ?a4)"
    using assms(1) u by (simp add: ra_executePGDML_def)
  have e: "execute_step ex False p t a = Inr (- 1, ?a6)"
    by (simp add: execute_step_def r)
  have i5: "info_of t (aw ?a5) = Some (i\<lparr>state := STATE_EXECUTING\<rparr>)"
    using i3 by simp
  have t5: "trace (aw ?a5) = trace (aw a) @ [Set_state t STATE_EXECUTING, StartTransactionCommand,
          Elog WARNING (locate_msg ex (rel a)), Elog WARNING ''tuple to update not found'',
          CommitTransactionCommand,
          Elog WARNING ''failed to execute PG DML change event'']"
    using t3 by simp
  have i6: "info_of t (aw ?a6) = Some (i\<lparr>state := STATE_SYNCING\<rparr>)"
    using set_state_info(1) [OF i5, of STATE_SYNCING] by simp
  have t6: "trace (aw ?a6) = trace (aw ?a5) @ [Set_state t STATE_SYNCING]"
    by (rule set_state_info(2) [OF i5])
  have ev: "applied_events a ?a6 =
         [Set_state t STATE_EXECUTING, StartTransactionCommand,
          Elog WARNING (locate_msg ex (rel a)), Elog WARNING ''tuple to update not found'',
          CommitTransactionCommand,
          Elog WARNING ''failed to execute PG DML change event'', Set_state t STATE_SYNCING]"
    unfolding applied_events_def new_events_def t6 t5 by simp
  have rl: "rel ?a6 = rel a" by simp
  show ?thesis
    using e rl i6 ev by (intro exI [of _ ?a6]) simp
qed

lemma ex_keep3:
  "\<exists>a'. A a' \<and> B a' \<and> C a' \<and> D a' \<Longrightarrow> \<exists>a'. A a' \<and> B a' \<and> C a'"
  by blast

theorem update_miss_is_not_fatal_witness:
  "pg_op miss_update = CHR ''u''
   \<and> rel_oid (rel miss_world) = pg_tableoid miss_update
   \<and> fill_slot miss_executor (rel_atttypmod (rel miss_world)) (pg_columnValuesBefore miss_update)
       = Inr [Some ''10001'', Some ''2'', Some ''widget'']
   \<and> locate miss_executor (rel miss_world) [Some ''10001'', Some ''2'', Some ''widget''] = None
   \<and> info_of TYPE_MYSQL (aw miss_world) = Some miss_info
   \<and> (\<exists>a'. execute_step miss_executor False miss_update TYPE_MYSQL miss_world = Inr (- 1, a')
          \<and> rel a' = rel miss_world
          \<and> map_option state (info_of TYPE_MYSQL (aw a')) = Some STATE_SYNCING)"
proof -
  have h1: "pg_op miss_update = CHR ''u''"
    by (simp add: miss_update_def)
  have h2: "rel_oid (rel miss_world) = pg_tableoid miss_update"
    by (simp add: miss_update_def miss_world_def)
  have n: "\<not> strcasecmp_eq ''10001'' ''NULL''" "\<not> strcasecmp_eq ''2'' ''NULL''"
    "\<not> strcasecmp_eq ''widget'' ''NULL''"
    by (simp_all add: strcasecmp_eq_def tolower_NULL c_tolower_def)
  have h3: "fill_slot miss_executor (rel_atttypmod (rel miss_world))
              (pg_columnValuesBefore miss_update) = Inr [Some ''10001'', Some ''2'', Some ''widget'']"
    by (simp add: miss_update_def miss_world_def miss_executor_def n)
  have h4: "locate miss_executor (rel miss_world) [Some ''10001'', Some ''2'', Some ''widget'']
              = None"
    by (simp add: locate_def miss_world_def miss_executor_def key_lookup_def)
  have h5: "info_of TYPE_MYSQL (aw miss_world) = Some miss_info"
    by (simp add: info_of_def miss_world_def get_info_def)
  have c: "\<exists>a'. execute_step miss_executor False miss_update TYPE_MYSQL miss_world = Inr (- 1, a')
          \<and> rel a' = rel miss_world
          \<and> map_option state (info_of TYPE_MYSQL (aw a')) = Some STATE_SYNCING"
    by (rule ex_keep3 [OF update_miss_is_not_fatal [OF h1 h2 h3 h4 h5]])
  show ?thesis
    using h1 h2 h3 h4 h5 c by (intro conjI)
qed

subsection \<open>Bit strings\<close>











lemma binary_digits_length: "length (binary_digits bs) \<le> 8 * length bs + 1"
proof -
  have "length (concat (map byte_to_binary (rev bs))) = 8 * length bs"
    by (induction bs) (simp_all add: byte_to_binary_def)
  moreover have "length (dropWhile (\<lambda>c. c = CHR ''0'') (concat (map byte_to_binary (rev bs))))
       \<le> length (concat (map byte_to_binary (rev bs)))"
    by (rule length_dropWhile_le)
  ultimately show ?thesis by (simp add: binary_digits_def Let_def)
qed














subsection \<open>Numeric and money values\<close>

lemma decode_minus_5: "pg_b64_decode ''+w=='' 3 = Some [0xFB]"
  by (simp add: b64_eval)

lemma derive_FB: "derive_value_from_byte [0xFB, 0, 0, 0] 1 = Inr (- 5)"
  by (simp add: derive_value_from_byte_def)

lemma not_null_minus_5: "\<not> strcasecmp_eq ''+w=='' ''NULL''"
  by code_simp

lemma value_FB: "twos_complement_value [0xFB] = - 5"
  by (simp add: twos_complement_value_def be_value_def)

lemma minus_5_decoded: "processDataByType plain_env (column_value ''+w=='' NUMERICOID (- 1) 2 TIME_UNDEF) False ''inv.t''
     = Inr (Some ''0.-5'')"
    by (simp add: processDataByType_def column_value_def not_null_minus_5 decode_by_type_def
          decode_numeric_def pg_b64_dec_len_def decode_minus_5 derive_FB dec_eval Let_def
          place_decimal_def)

lemma minus_5_text: "spec_decimal (- 5) 2 = ''-0.05''"
    by (simp add: spec_decimal_def dec_eval Let_def)

lemma decode_381: "pg_b64_decode ''AX0='' 3 = Some [0x01, 0x7D]"
  by (simp add: b64_eval)

lemma derive_381: "derive_value_from_byte [0x01, 0x7D, 0, 0] 2 = Inr 381"
  by (simp add: derive_value_from_byte_def)

lemma not_null_381: "\<not> strcasecmp_eq ''AX0='' ''NULL''"
  by (simp add: strcasecmp_eq_def tolower_NULL c_tolower_def)

lemma numeric_scenario_381: "processDataByType plain_env (column_value ''AX0='' NUMERICOID (- 1) 2 TIME_UNDEF) False ''inv.t''
     = Inr (Some ''3.81'')"
    by (simp add: processDataByType_def column_value_def not_null_381 decode_by_type_def
          decode_numeric_def pg_b64_dec_len_def decode_381 derive_381 dec_eval Let_def
          place_decimal_def)

lemma decode_9b: "pg_b64_decode ''AQAAAAAAAAAA'' 9 = Some [1, 0, 0, 0, 0, 0, 0, 0, 0]"
  by (simp add: b64_eval)

lemma derive_9b: "derive_value_from_byte [1, 0, 0, 0, 0, 0, 0, 0, 0, 0] 9 = Inr 0"
  by (simp add: derive_value_from_byte_def)

lemma value_9b: "twos_complement_value [1, 0, 0, 0, 0, 0, 0, 0, 0] = 18446744073709551616"
  by (simp add: twos_complement_value_def be_value_def)

lemma not_null_9b: "\<not> strcasecmp_eq ''AQAAAAAAAAAA'' ''NULL''"
  by (simp add: strcasecmp_eq_def)

lemma nine_byte_value_wraps:
  "processDataByType plain_env (column_value ''AQAAAAAAAAAA'' NUMERICOID (- 1) 0 TIME_UNDEF) False
     ''inv.t'' = Inr (Some ''0'')"
  by (simp add: processDataByType_def column_value_def not_null_9b decode_by_type_def
        decode_numeric_def pg_b64_dec_len_def decode_9b derive_9b dec_eval Let_def)

text \<open>
  Claim C3 does not hold of the code for negative values. The byte \<open>0xFB\<close> (raw value
  \<open>+w==\<close>) is the two's-complement integer \<open>-5\<close>; with scale 2 the decimal point
  belongs two digits from the right, with a zero inserted: \<open>-0.05\<close>. The decoder
  compares the length of the printed integer, sign included, with the scale, takes
  \<open>-5\<close> for an integer of two digits, and returns \<open>0.-5\<close>.
\<close>

theorem negative_numeric_point_misplaced:
  "pg_b64_decode ''+w=='' (pg_b64_dec_len (length ''+w=='')) = Some [0xFB]
   \<and> twos_complement_value [0xFB] = - 5
   \<and> processDataByType plain_env (column_value ''+w=='' NUMERICOID (- 1) 2 TIME_UNDEF) False ''inv.t''
     = Inr (Some ''0.-5'')
   \<and> spec_decimal (- 5) 2 = ''-0.05''"
proof (intro conjI)
  show "pg_b64_decode ''+w=='' (pg_b64_dec_len (length ''+w=='')) = Some [0xFB]"
    by (simp add: pg_b64_dec_len_def decode_minus_5)
  show "twos_complement_value [0xFB] = - 5"
    by (rule value_FB)
  show "processDataByType plain_env (column_value ''+w=='' NUMERICOID (- 1) 2 TIME_UNDEF) False
     ''inv.t'' = Inr (Some ''0.-5'')"
    by (rule minus_5_decoded)
  show "spec_decimal (- 5) 2 = ''-0.05''"
    by (rule minus_5_text)
qed

end
